theory Spec2Isabelle
  imports Main
begin

section \<open>Dynamic field substitution\<close>

text \<open>
  Source: \<^verbatim>\<open>src/components/landing-page-designer.tsx\<close>, \<^verbatim>\<open>renderDynamicText\<close>:
  \<^verbatim>\<open>
  text.replace(/\{\{([^}]+)\}\}/g, (match, field) => {
    const sampleData: Record<string, string> = {
      "first-name": "Sarah", "last-name": "Johnson",
      company: "Acme Corp", "gift-name": "Premium Package",
    }
    return sampleData[field] || `[${field}]`
  })
  \<close>
  A JavaScript string is modelled as a \<^typ>\<open>string\<close>; the scan only ever compares a
  character with the two braces, so the width of a character plays no role.
\<close>

subsection \<open>The lookup \<^verbatim>\<open>sampleData[field]\<close>\<close>

text \<open>
  \<^verbatim>\<open>sampleData\<close> is an object literal, so a property read that finds no own property
  continues in \<^verbatim>\<open>Object.prototype\<close>. The values a read can produce are a string (an own
  property), a built-in function or the prototype object itself (inherited), or
  \<^verbatim>\<open>undefined\<close>.
\<close>

datatype jsval = Undefined | Str string | NativeFunction string | ObjectPrototype

definition sampleData :: "(string \<times> string) list" where
  "sampleData =
     [(''first-name'', ''Sarah''),
      (''last-name'', ''Johnson''),
      (''company'', ''Acme Corp''),
      (''gift-name'', ''Premium Package'')]"

text \<open>
  The properties of \<^verbatim>\<open>Object.prototype\<close>: each is a built-in function whose name is the
  property's name, except \<^verbatim>\<open>constructor\<close> (the function \<^verbatim>\<open>Object\<close>) and the accessor
  \<^verbatim>\<open>__proto__\<close>, whose getter returns the prototype of the object read, here
  \<^verbatim>\<open>Object.prototype\<close>.
\<close>

definition Object_prototype :: "(string \<times> jsval) list" where
  "Object_prototype =
     [(''constructor'', NativeFunction ''Object''),
      (''__defineGetter__'', NativeFunction ''__defineGetter__''),
      (''__defineSetter__'', NativeFunction ''__defineSetter__''),
      (''hasOwnProperty'', NativeFunction ''hasOwnProperty''),
      (''__lookupGetter__'', NativeFunction ''__lookupGetter__''),
      (''__lookupSetter__'', NativeFunction ''__lookupSetter__''),
      (''isPrototypeOf'', NativeFunction ''isPrototypeOf''),
      (''propertyIsEnumerable'', NativeFunction ''propertyIsEnumerable''),
      (''toString'', NativeFunction ''toString''),
      (''valueOf'', NativeFunction ''valueOf''),
      (''__proto__'', ObjectPrototype),
      (''toLocaleString'', NativeFunction ''toLocaleString'')]"

definition get_property :: "string \<Rightarrow> jsval" where
  "get_property field =
     (case map_of sampleData field of
        Some v \<Rightarrow> Str v
      | None \<Rightarrow> (case map_of Object_prototype field of
                   Some v \<Rightarrow> v
                 | None \<Rightarrow> Undefined))"

text \<open>The left operand of \<^verbatim>\<open>||\<close> is kept when it is truthy.\<close>

fun truthy :: "jsval \<Rightarrow> bool" where
  "truthy Undefined = False"
| "truthy (Str s) = (s \<noteq> [])"
| "truthy (NativeFunction n) = True"
| "truthy ObjectPrototype = True"

text \<open>
  \<^verbatim>\<open>String.prototype.replace\<close> converts what the callback returns to a string. The text of
  a built-in function is the host's; it is written here as V8 prints it.
\<close>

fun ToString :: "jsval \<Rightarrow> string" where
  "ToString Undefined = ''undefined''"
| "ToString (Str s) = s"
| "ToString (NativeFunction n) = ''function '' @ n @ ''() { [native code] }''"
| "ToString ObjectPrototype = ''[object Object]''"

definition replacer :: "string \<Rightarrow> string" where
  "replacer field =
     (let v = get_property field
      in if truthy v then ToString v else ''['' @ field @ '']'')"

subsection \<open>The scan of \<^verbatim>\<open>/\{\{([^}]+)\}\}/g\<close>\<close>

text \<open>
  \<open>matchAt s\<close> is the attempt to match the pattern at the start of \<open>s\<close>: two opening
  braces, then the greedy run \<^verbatim>\<open>[^}]+\<close>, then two closing braces. Giving back characters
  of the run cannot help, since the character after a shorter run is not a closing
  brace, so the match succeeds exactly when the longest run is not empty and two closing
  braces follow it. The result is the captured group and the text after the match.
\<close>

definition matchAt :: "string \<Rightarrow> (string \<times> string) option" where
  "matchAt s =
     (case s of
        a # b # t \<Rightarrow>
          if a = CHR ''{'' \<and> b = CHR ''{'' then
            (let field = takeWhile (\<lambda>c. c \<noteq> CHR ''}'') t
             in case dropWhile (\<lambda>c. c \<noteq> CHR ''}'') t of
                  x # y # rest \<Rightarrow>
                    if field \<noteq> [] \<and> y = CHR ''}'' then Some (field, rest) else None
                | _ \<Rightarrow> None)
          else None
      | _ \<Rightarrow> None)"

text \<open>
  With the \<^verbatim>\<open>g\<close> flag the scan goes from left to right: where the pattern matches, the
  callback's text is emitted and the scan goes on after the match; elsewhere the
  character is copied and the scan moves one character on.
\<close>

function renderDynamicText :: "string \<Rightarrow> string" where
  "renderDynamicText [] = []"
| "renderDynamicText (c # cs) =
     (case matchAt (c # cs) of
        Some (field, rest) \<Rightarrow> replacer field @ renderDynamicText rest
      | None \<Rightarrow> c # renderDynamicText cs)"
  by pat_completeness auto
termination
proof (relation "measure length")
  show "wf (measure length)" by simp
next
  fix c :: char and cs x2 field rest
  assume m: "matchAt (c # cs) = Some x2" and x2: "(field, rest) = x2"
  from m obtain b t where s: "c # cs = c # b # t"
    by (auto simp: matchAt_def split: list.splits)
  from m x2 s obtain x y where d: "dropWhile (\<lambda>c. c \<noteq> CHR ''}'') t = x # y # rest"
    by (auto simp: matchAt_def Let_def split: list.splits if_splits)
  have "length (dropWhile (\<lambda>c. c \<noteq> CHR ''}'') t) \<le> length t"
    by (rule length_dropWhile_le)
  with d s show "(rest, c # cs) \<in> measure length" by simp
next
  fix c :: char and cs
  show "(cs, c # cs) \<in> measure length" by simp
qed

text \<open>
  \<^verbatim>\<open>renderRichTextWithDynamicFields\<close> has the same body as \<^verbatim>\<open>renderDynamicText\<close>, applied
  to the description's markup.
\<close>

definition renderRichTextWithDynamicFields :: "string \<Rightarrow> string" where
  "renderRichTextWithDynamicFields htmlContent = renderDynamicText htmlContent"

text \<open>
  What the pattern recognises, stated without the scan: a name is a non-empty text with
  no closing brace, and a token is a name between two opening and two closing braces.
\<close>

definition is_name :: "string \<Rightarrow> bool" where
  "is_name n \<longleftrightarrow> n \<noteq> [] \<and> CHR ''}'' \<notin> set n"

definition has_token :: "string \<Rightarrow> bool" where
  "has_token T \<longleftrightarrow> (\<exists>pre n post. is_name n \<and> T = pre @ ''{{'' @ n @ ''}}'' @ post)"

section \<open>The design document\<close>

text \<open>
  \<^verbatim>\<open>interface LandingPageData\<close>. A \<^verbatim>\<open>Date\<close> is its time value; the fields of a button are
  prefixed with \<open>btn\<close> and the first two of the background with \<open>bg\<close>, since
  \<^verbatim>\<open>show\<close>, \<^verbatim>\<open>text\<close> and \<^verbatim>\<open>type\<close> are reserved words here.
\<close>

type_synonym date = int

datatype resourceType = RVideo | RImage
datatype backgroundType = Solid | Gradient
datatype gradientDirection = ToR | ToBr | ToB | ToBl

record Button =
  btn_show :: bool
  btn_text :: string
  btn_url :: string
  btn_color :: string

record Background =
  bg_type :: backgroundType
  bg_color :: string
  gradientFrom :: string
  gradientTo :: string
  gradientDirection :: gradientDirection

record LandingPageData =
  logo :: string
  title :: string
  titleColor :: string
  description :: string
  descriptionColor :: string
  showDate :: bool
  selectedDate :: "date option"
  dateColor :: string
  resourceType :: resourceType
  resourceUrl :: string
  button1 :: Button
  button2 :: Button
  background :: Background

text \<open>\<^verbatim>\<open>interface InitialLandingPageData\<close>: every field optional, \<open>None\<close> when absent.\<close>

record InitialButton =
  init_text :: "string option"
  init_url :: "string option"
  init_color :: "string option"

record InitialLandingPageData =
  init_logo :: "string option"
  init_title :: "string option"
  init_description :: "string option"
  init_button1 :: "InitialButton option"
  init_button2 :: "InitialButton option"
  init_resourceUrl :: "string option"
  init_resourceType :: "resourceType option"
  init_selectedDate :: "date option"
  init_showDate :: "bool option"

text \<open>\<^verbatim>\<open>defaultData\<close>; \<open>now\<close> is the value of \<^verbatim>\<open>new Date()\<close> at mount.\<close>

definition defaultData :: "date \<Rightarrow> LandingPageData" where
  "defaultData now =
     \<lparr>logo = ''/placeholder.svg?height=40&width=120&text=Logo'',
      title = ''Hello {{first-name}}, You've Got a Special Gift!'',
      titleColor = ''#111827'',
      description = ''We're excited to share something special with you, {{first-name}}. Your gift is on its way, and we wanted to create this personalized experience just for you.'',
      descriptionColor = ''#6B7280'',
      showDate = True,
      selectedDate = Some now,
      dateColor = ''#7C3AED'',
      resourceType = RImage,
      resourceUrl = ''/placeholder.svg?height=400&width=600&text=Gift+Preview'',
      button1 = \<lparr>btn_show = True, btn_text = ''Track My Gift'', btn_url = ''#'',
                 btn_color = ''#7C3AED''\<rparr>,
      button2 = \<lparr>btn_show = True, btn_text = ''Learn More'', btn_url = ''#'',
                 btn_color = ''#6B7280''\<rparr>,
      background = \<lparr>bg_type = Solid, bg_color = ''#FFFFFF'', gradientFrom = ''#7C3AED'',
                    gradientTo = ''#A855F7'', gradientDirection = ToBr\<rparr>\<rparr>"

subsection \<open>\<^verbatim>\<open>mergeInitialData\<close>\<close>

text \<open>
  \<^verbatim>\<open>...(x && { f: x })\<close> writes \<open>f\<close> when \<open>x\<close> is truthy and spreads nothing otherwise.
  For a string, truthy means present and not empty; a \<^verbatim>\<open>Date\<close> and a resource type are
  truthy whenever present; \<^verbatim>\<open>showDate\<close> is tested with \<^verbatim>\<open>!== undefined\<close>.
\<close>

fun spread_string :: "string \<Rightarrow> string option \<Rightarrow> string" where
  "spread_string d None = d"
| "spread_string d (Some v) = (if v \<noteq> [] then v else d)"

fun spread_present :: "'a \<Rightarrow> 'a option \<Rightarrow> 'a" where
  "spread_present d None = d"
| "spread_present d (Some v) = v"

text \<open>\<^verbatim>\<open>initial.button1?.text\<close>: undefined when the button is absent.\<close>

fun chain :: "'a option \<Rightarrow> ('a \<Rightarrow> 'b option) \<Rightarrow> 'b option" where
  "chain None f = None"
| "chain (Some b) f = f b"

definition mergeInitialData ::
  "LandingPageData \<Rightarrow> InitialLandingPageData option \<Rightarrow> LandingPageData" where
  "mergeInitialData defaults initial =
     (case initial of
        None \<Rightarrow> defaults
      | Some i \<Rightarrow>
          defaults
            \<lparr>logo := spread_string (logo defaults) (init_logo i),
             title := spread_string (title defaults) (init_title i),
             description := spread_string (description defaults) (init_description i),
             resourceUrl := spread_string (resourceUrl defaults) (init_resourceUrl i),
             resourceType := spread_present (resourceType defaults) (init_resourceType i),
             selectedDate :=
               (case init_selectedDate i of
                  None \<Rightarrow> selectedDate defaults
                | Some t \<Rightarrow> Some t),
             showDate := spread_present (showDate defaults) (init_showDate i),
             button1 := (button1 defaults)
               \<lparr>btn_text := spread_string (btn_text (button1 defaults))
                              (chain (init_button1 i) init_text),
                btn_url := spread_string (btn_url (button1 defaults))
                             (chain (init_button1 i) init_url),
                btn_color := spread_string (btn_color (button1 defaults))
                               (chain (init_button1 i) init_color)\<rparr>,
             button2 := (button2 defaults)
               \<lparr>btn_text := spread_string (btn_text (button2 defaults))
                              (chain (init_button2 i) init_text),
                btn_url := spread_string (btn_url (button2 defaults))
                             (chain (init_button2 i) init_url),
                btn_color := spread_string (btn_color (button2 defaults))
                               (chain (init_button2 i) init_color)\<rparr>\<rparr>)"

text \<open>The seed \<^verbatim>\<open>{}\<close>, and the seed \<^verbatim>\<open>{ button1: { text: X } }\<close>.\<close>

definition empty_button :: InitialButton where
  "empty_button = \<lparr>init_text = None, init_url = None, init_color = None\<rparr>"

definition empty_seed :: InitialLandingPageData where
  "empty_seed =
     \<lparr>init_logo = None, init_title = None, init_description = None,
      init_button1 = None, init_button2 = None, init_resourceUrl = None,
      init_resourceType = None, init_selectedDate = None, init_showDate = None\<rparr>"

section \<open>The configuration store\<close>

text \<open>
  \<^verbatim>\<open>updateData(field, value)\<close>, \<^verbatim>\<open>updateButton(buttonNum, field, value)\<close> and
  \<^verbatim>\<open>updateBackground(field, value)\<close>. A field name and its value travel together, typed
  as the field is; \<^verbatim>\<open>keyof LandingPageData\<close> includes the three nested objects.
\<close>

datatype field_value =
    Logo string | Title string | TitleColor string | Description string
  | DescriptionColor string | ShowDate bool | SelectedDate "date option"
  | DateColor string | ResourceType resourceType | ResourceUrl string
  | Button1 Button | Button2 Button | BackgroundObj Background



datatype background_value =
    BgType backgroundType | BgColor string | GradientFrom string | GradientTo string
  | GradientDirection gradientDirection

text \<open>The object expression \<^verbatim>\<open>{ ...data, [field]: value }\<close>.\<close>

fun set_field :: "field_value \<Rightarrow> LandingPageData \<Rightarrow> LandingPageData" where
  "set_field (Logo v) data = data\<lparr>logo := v\<rparr>"
| "set_field (Title v) data = data\<lparr>title := v\<rparr>"
| "set_field (TitleColor v) data = data\<lparr>titleColor := v\<rparr>"
| "set_field (Description v) data = data\<lparr>description := v\<rparr>"
| "set_field (DescriptionColor v) data = data\<lparr>descriptionColor := v\<rparr>"
| "set_field (ShowDate v) data = data\<lparr>showDate := v\<rparr>"
| "set_field (SelectedDate v) data = data\<lparr>selectedDate := v\<rparr>"
| "set_field (DateColor v) data = data\<lparr>dateColor := v\<rparr>"
| "set_field (ResourceType v) data = data\<lparr>resourceType := v\<rparr>"
| "set_field (ResourceUrl v) data = data\<lparr>resourceUrl := v\<rparr>"
| "set_field (Button1 v) data = data\<lparr>button1 := v\<rparr>"
| "set_field (Button2 v) data = data\<lparr>button2 := v\<rparr>"
| "set_field (BackgroundObj v) data = data\<lparr>background := v\<rparr>"


fun set_background_field :: "background_value \<Rightarrow> Background \<Rightarrow> Background" where
  "set_background_field (BgType v) b = b\<lparr>bg_type := v\<rparr>"
| "set_background_field (BgColor v) b = b\<lparr>bg_color := v\<rparr>"
| "set_background_field (GradientFrom v) b = b\<lparr>gradientFrom := v\<rparr>"
| "set_background_field (GradientTo v) b = b\<lparr>gradientTo := v\<rparr>"
| "set_background_field (GradientDirection v) b = b\<lparr>gradientDirection := v\<rparr>"

text \<open>
  What a call does, in the order it does it: \<^verbatim>\<open>setData(newData)\<close>, then
  \<^verbatim>\<open>onDataChange?.(newData)\<close>, which calls the sink when one was passed.
\<close>

datatype effect = SetData LandingPageData | OnDataChange LandingPageData

definition notify :: "bool \<Rightarrow> LandingPageData \<Rightarrow> effect list" where
  "notify sink newData = (if sink then [OnDataChange newData] else [])"

definition updateData :: "bool \<Rightarrow> LandingPageData \<Rightarrow> field_value \<Rightarrow> effect list" where
  "updateData sink data fv =
     (let newData = set_field fv data
      in SetData newData # notify sink newData)"


definition updateBackground ::
  "bool \<Rightarrow> LandingPageData \<Rightarrow> background_value \<Rightarrow> effect list" where
  "updateBackground sink data gv =
     (let newData = data\<lparr>background := set_background_field gv (background data)\<rparr>
      in SetData newData # notify sink newData)"

text \<open>
  The document the component holds once the effects have run, and what the sink has
  received, oldest first.
\<close>

fun committed :: "LandingPageData \<Rightarrow> effect list \<Rightarrow> LandingPageData" where
  "committed data [] = data"
| "committed data (SetData d # es) = committed d es"
| "committed data (OnDataChange d # es) = committed data es"


text \<open>Reading a field by name, to say which fields a call leaves alone.\<close>

datatype field_name =
    FLogo | FTitle | FTitleColor | FDescription | FDescriptionColor | FShowDate
  | FSelectedDate | FDateColor | FResourceType | FResourceUrl | FButton1 | FButton2
  | FBackground


fun read_field :: "field_name \<Rightarrow> LandingPageData \<Rightarrow> field_value" where
  "read_field FLogo d = Logo (logo d)"
| "read_field FTitle d = Title (title d)"
| "read_field FTitleColor d = TitleColor (titleColor d)"
| "read_field FDescription d = Description (description d)"
| "read_field FDescriptionColor d = DescriptionColor (descriptionColor d)"
| "read_field FShowDate d = ShowDate (showDate d)"
| "read_field FSelectedDate d = SelectedDate (selectedDate d)"
| "read_field FDateColor d = DateColor (dateColor d)"
| "read_field FResourceType d = ResourceType (resourceType d)"
| "read_field FResourceUrl d = ResourceUrl (resourceUrl d)"
| "read_field FButton1 d = Button1 (button1 d)"
| "read_field FButton2 d = Button2 (button2 d)"
| "read_field FBackground d = BackgroundObj (background d)"




datatype background_field = FType | FBgColor | FGradientFrom | FGradientTo | FGradientDirection

fun background_name_of :: "background_value \<Rightarrow> background_field" where
  "background_name_of (BgType v) = FType"
| "background_name_of (BgColor v) = FBgColor"
| "background_name_of (GradientFrom v) = FGradientFrom"
| "background_name_of (GradientTo v) = FGradientTo"
| "background_name_of (GradientDirection v) = FGradientDirection"

fun read_background_field :: "background_field \<Rightarrow> Background \<Rightarrow> background_value" where
  "read_background_field FType b = BgType (bg_type b)"
| "read_background_field FBgColor b = BgColor (bg_color b)"
| "read_background_field FGradientFrom b = GradientFrom (gradientFrom b)"
| "read_background_field FGradientTo b = GradientTo (gradientTo b)"
| "read_background_field FGradientDirection b = GradientDirection (gradientDirection b)"



section \<open>The feedback interaction\<close>

text \<open>
  \<^verbatim>\<open>textFeedback.trim()\<close> looks at what each character is, so the text of the message
  is kept as its UTF-16 code units, each a number below 65536. It removes white space
  and line terminators at both ends: tab, line feed, vertical tab, form feed, carriage
  return, space, no-break space, the Ogham space mark, the spaces from en quad to
  hair space, line separator, paragraph separator, narrow no-break space, medium
  mathematical space, ideographic space and the byte order mark.
\<close>

type_synonym code_unit = nat

definition is_space :: "code_unit \<Rightarrow> bool" where
  "is_space c \<longleftrightarrow>
     c \<in> {0x09, 0x0A, 0x0B, 0x0C, 0x0D, 0x20, 0xA0, 0x1680, 0x2028, 0x2029, 0x202F,
          0x205F, 0x3000, 0xFEFF} \<or>
     (0x2000 \<le> c \<and> c \<le> 0x200A)"

definition trim :: "code_unit list \<Rightarrow> code_unit list" where
  "trim s = rev (dropWhile is_space (rev (dropWhile is_space s)))"

text \<open>
  The state is the component's \<^verbatim>\<open>useState\<close> cells: \<^verbatim>\<open>showFeedbackModal\<close> and
  \<^verbatim>\<open>showRating\<close> of the designer, \<^verbatim>\<open>feedbackType\<close>, \<^verbatim>\<open>isRecording\<close> and
  \<^verbatim>\<open>textFeedback\<close> of \<^verbatim>\<open>FeedbackModal\<close>, each with its initial value.
\<close>

datatype feedbackType = FVideo | FText

record feedback =
  showFeedbackModal :: bool
  showRating :: bool
  feedbackType :: feedbackType
  isRecording :: bool
  textFeedback :: "code_unit list"

definition initial_feedback :: feedback where
  "initial_feedback =
     \<lparr>showFeedbackModal = False, showRating = False, feedbackType = FVideo,
      isRecording = False, textFeedback = []\<rparr>"

definition handleFeedbackModalClose :: "feedback \<Rightarrow> feedback" where
  "handleFeedbackModalClose s = s\<lparr>showFeedbackModal := False, showRating := True\<rparr>"

text \<open>\<^verbatim>\<open>handleSubmit\<close> of the modal calls \<^verbatim>\<open>onClose\<close>, which is \<^verbatim>\<open>handleFeedbackModalClose\<close>.\<close>

definition handleSubmit :: "feedback \<Rightarrow> feedback" where
  "handleSubmit s = handleFeedbackModalClose s"

text \<open>
  The user's actions, one per control. A control that is not rendered, or is disabled,
  cannot be operated, and the action leaves the state as it is:
  \<^item> the button \<^verbatim>\<open>Leave a message for host\<close> is rendered while \<^verbatim>\<open>!showRating\<close>;
  \<^item> the modal renders nothing unless \<^verbatim>\<open>isOpen\<close>;
  \<^item> \<^verbatim>\<open>Write instead\<close>, the recording button and \<^verbatim>\<open>Send Video Message\<close> belong to the
    video interface, the last only while \<^verbatim>\<open>isRecording\<close>;
  \<^item> \<^verbatim>\<open>Record instead\<close>, the text area and \<^verbatim>\<open>Send Message\<close> belong to the text
    interface, the last disabled while \<^verbatim>\<open>!textFeedback.trim()\<close>.
\<close>

datatype event =
    LeaveMessage | CloseModal | WriteInstead | RecordInstead | ToggleRecording
  | SendVideoMessage | SendMessage | TypeText "code_unit list"

fun handle :: "event \<Rightarrow> feedback \<Rightarrow> feedback" where
  "handle LeaveMessage s =
     (if \<not> showRating s then s\<lparr>showFeedbackModal := True\<rparr> else s)"
| "handle CloseModal s =
     (if showFeedbackModal s then handleFeedbackModalClose s else s)"
| "handle WriteInstead s =
     (if showFeedbackModal s \<and> feedbackType s = FVideo then s\<lparr>feedbackType := FText\<rparr> else s)"
| "handle RecordInstead s =
     (if showFeedbackModal s \<and> feedbackType s = FText then s\<lparr>feedbackType := FVideo\<rparr> else s)"
| "handle ToggleRecording s =
     (if showFeedbackModal s \<and> feedbackType s = FVideo
      then s\<lparr>isRecording := \<not> isRecording s\<rparr> else s)"
| "handle SendVideoMessage s =
     (if showFeedbackModal s \<and> feedbackType s = FVideo \<and> isRecording s
      then handleSubmit s else s)"
| "handle SendMessage s =
     (if showFeedbackModal s \<and> feedbackType s = FText \<and> trim (textFeedback s) \<noteq> []
      then handleSubmit s else s)"
| "handle (TypeText v) s =
     (if showFeedbackModal s \<and> feedbackType s = FText then s\<lparr>textFeedback := v\<rparr> else s)"

fun run :: "event list \<Rightarrow> feedback \<Rightarrow> feedback" where
  "run [] s = s"
| "run (e # es) s = run es (handle e s)"

definition reachable :: "feedback \<Rightarrow> bool" where
  "reachable s \<longleftrightarrow> (\<exists>es. s = run es initial_feedback)"

text \<open>The three states of the interaction, read off the cells.\<close>

datatype phase = Idle | ModalOpen feedbackType | RatingShown

definition phase_of :: "feedback \<Rightarrow> phase" where
  "phase_of s =
     (if showFeedbackModal s then ModalOpen (feedbackType s)
      else if showRating s then RatingShown
      else Idle)"

section \<open>The preview\<close>

text \<open>
  What \<^verbatim>\<open>renderLandingPageContent\<close> returns, as a tree: an element has a tag, its
  attributes in the order written, and its children; a conditional child
  \<^verbatim>\<open>{c && <e/>}\<close> is one child or none. The class names carry the layout and the type
  scale; a click handler is the action it performs.
\<close>

datatype previewMode = mobile | desktop

datatype action = WindowOpen string string | Dispatch event

datatype attr =
    ClassName string | Style string string | Src string | Alt string
  | OnClick action | OnChangeText | DangerouslySetInnerHTML string
  | Variant string | Size string | Disabled bool | Value "code_unit list"
  | Placeholder string | AutoFocus

datatype node = Element string "attr list" "node list" | TextNode string

definition getBackgroundStyle :: "LandingPageData \<Rightarrow> attr list" where
  "getBackgroundStyle data =
     (if bg_type (background data) = Gradient then
        (let direction = gradientDirection (background data)
         in [Style ''background''
              (''linear-gradient('' @
               (if direction = ToR then ''to right''
                else if direction = ToBr then ''to bottom right''
                else if direction = ToB then ''to bottom''
                else ''to bottom left'') @
               '', '' @ gradientFrom (background data) @
               '', '' @ gradientTo (background data) @ '')'')])
      else [Style ''backgroundColor'' (bg_color (background data))])"

text \<open>\<^verbatim>\<open>x || "/placeholder.svg"\<close>.\<close>

definition or_placeholder :: "string \<Rightarrow> string" where
  "or_placeholder x = (if x \<noteq> [] then x else ''/placeholder.svg'')"

subsection \<open>\<^verbatim>\<open>FeedbackModal\<close>\<close>

definition modal_header :: "previewMode \<Rightarrow> node" where
  "modal_header previewMode =
     Element ''div'' [ClassName ''flex items-center justify-between p-4 border-b'']
       [Element ''h3''
          [ClassName (''font-semibold text-gray-900 '' @
                      (if previewMode = mobile then ''text-lg'' else ''text-xl''))]
          [TextNode ''Leave a Message''],
        Element ''Button''
          [Variant ''ghost'', Size ''sm'', OnClick (Dispatch CloseModal),
           ClassName ''h-8 w-8 p-0'']
          [Element ''X'' [ClassName ''w-4 h-4''] []]]"

definition video_interface :: "previewMode \<Rightarrow> bool \<Rightarrow> node" where
  "video_interface previewMode isRec =
     Element ''div'' [ClassName ''space-y-4'']
       ([Element ''div'' [ClassName ''text-center'']
           [Element ''h4''
              [ClassName (''font-medium text-gray-900 mb-2 '' @
                          (if previewMode = mobile then ''text-base'' else ''text-lg''))]
              [TextNode ''Record Your Message''],
            Element ''p''
              [ClassName (''text-gray-600 '' @
                          (if previewMode = mobile then ''text-sm'' else ''text-base''))]
              [TextNode (if isRec then ''Recording... Tap to stop''
                         else ''Share a personal video message'')]],
         Element ''div''
           [ClassName (''bg-gray-900 rounded-lg '' @
                       (if previewMode = mobile then ''h-40'' else ''h-48'') @
                       '' flex items-center justify-center relative overflow-hidden'')]
           [Element ''div'' [ClassName ''text-center text-white'']
              [if isRec then
                 Element ''div'' [ClassName ''space-y-2'']
                   [Element ''div''
                      [ClassName ''w-4 h-4 bg-red-500 rounded-full mx-auto animate-pulse''] [],
                    Element ''p'' [ClassName ''text-sm''] [TextNode ''Recording...''],
                    Element ''p'' [ClassName ''text-xs text-gray-300''] [TextNode ''00:15'']]
               else
                 Element ''div'' [ClassName ''space-y-2'']
                   [Element ''div''
                      [ClassName ''w-16 h-16 bg-gray-700 rounded-full flex items-center justify-center mx-auto'']
                      [Element ''Video'' [ClassName ''w-8 h-8''] []],
                    Element ''p'' [ClassName ''text-sm''] [TextNode ''Camera Preview''],
                    Element ''p'' [ClassName ''text-xs text-gray-300'']
                      [TextNode ''Max 2 minutes'']]]],
         Element ''div'' [ClassName ''flex justify-center gap-4'']
           [Element ''Button''
              [Variant ''outline'', OnClick (Dispatch WriteInstead),
               ClassName ((if previewMode = mobile then ''text-sm'' else []) @
                          '' border-blue-200 text-blue-700 hover:bg-blue-50'')]
              [Element ''MessageSquare'' [ClassName ''w-4 h-4 mr-2''] [],
               TextNode ''Write instead''],
            Element ''Button''
              [ClassName ((if isRec then ''bg-red-600 hover:bg-red-700''
                           else ''bg-purple-600 hover:bg-purple-700'') @
                          '' text-white '' @
                          (if previewMode = mobile then ''text-sm'' else [])),
               OnClick (Dispatch ToggleRecording)]
              [Element ''Video'' [ClassName ''w-4 h-4 mr-2''] [],
               TextNode (if isRec then ''Stop Recording'' else ''Start Recording'')]]]
        @ (if isRec then
             [Element ''div'' [ClassName ''text-center'']
                [Element ''Button''
                   [OnClick (Dispatch SendVideoMessage),
                    ClassName (''bg-green-600 hover:bg-green-700 text-white '' @
                               (if previewMode = mobile then ''text-sm'' else []))]
                   [TextNode ''Send Video Message'']]]
           else []))"

definition text_interface :: "previewMode \<Rightarrow> code_unit list \<Rightarrow> node" where
  "text_interface previewMode txt =
     Element ''div'' [ClassName ''space-y-4'']
       [Element ''div'' [ClassName ''text-center'']
          [Element ''h4''
             [ClassName (''font-medium text-gray-900 mb-2 '' @
                         (if previewMode = mobile then ''text-base'' else ''text-lg''))]
             [TextNode ''Write Your Message''],
           Element ''p''
             [ClassName (''text-gray-600 '' @
                         (if previewMode = mobile then ''text-sm'' else ''text-base''))]
             [TextNode ''Share your thoughts, feedback, or just say hello!'']],
        Element ''textarea''
          [Value txt, OnChangeText, Placeholder ''Type your message here...'',
           ClassName (''w-full border border-gray-300 rounded-lg p-3 '' @
                      (if previewMode = mobile then ''h-32 text-sm'' else ''h-40'') @
                      '' resize-none focus:outline-none focus:ring-2 focus:ring-blue-500 focus:border-blue-500''),
           AutoFocus]
          [],
        Element ''div'' [ClassName ''flex justify-center gap-4'']
          [Element ''Button''
             [Variant ''outline'', OnClick (Dispatch RecordInstead),
              ClassName ((if previewMode = mobile then ''text-sm'' else []) @
                         '' border-purple-200 text-purple-700 hover:bg-purple-50'')]
             [Element ''Video'' [ClassName ''w-4 h-4 mr-2''] [],
              TextNode ''Record instead''],
           Element ''Button''
             [OnClick (Dispatch SendMessage), Disabled (trim txt = []),
              ClassName (''bg-blue-600 hover:bg-blue-700 text-white '' @
                         (if previewMode = mobile then ''text-sm'' else []))]
             [Element ''MessageSquare'' [ClassName ''w-4 h-4 mr-2''] [],
              TextNode ''Send Message'']]]"

text \<open>\<^verbatim>\<open>if (!isOpen) return null\<close>: no node at all while the modal is closed.\<close>

definition FeedbackModal :: "feedback \<Rightarrow> previewMode \<Rightarrow> node list" where
  "FeedbackModal s previewMode =
     (if \<not> showFeedbackModal s then []
      else
        [Element ''div''
           [ClassName ''fixed inset-0 bg-black bg-opacity-50 flex items-center justify-center z-50 p-4'']
           [Element ''div''
              [ClassName (''bg-white rounded-lg '' @
                          (if previewMode = mobile then ''w-full max-w-sm''
                           else ''w-full max-w-md'') @
                          '' max-h-[90vh] overflow-y-auto'')]
              [modal_header previewMode,
               Element ''div'' [ClassName ''p-4 space-y-4'']
                 [if feedbackType s = FVideo
                  then video_interface previewMode (isRecording s)
                  else text_interface previewMode (textFeedback s)]]]])"

subsection \<open>\<^verbatim>\<open>renderLandingPageContent\<close>\<close>

text \<open>
  The feedback button and the rating section are written twice in the source, with the
  same text: beneath the action buttons, and alone when both buttons are hidden. The
  text of the \<^verbatim>\<open>span\<close> is given as the bytes of the source file.
\<close>

definition feedback_button :: "previewMode \<Rightarrow> bool \<Rightarrow> node" where
  "feedback_button previewMode shouldPulse =
     Element ''div'' [ClassName ''flex justify-center'']
       [Element ''Button''
          [Variant ''outline'',
           ClassName ((if previewMode = mobile then ''text-sm px-4 py-2'' else ''px-6 py-3'') @
                      '' border-purple-200 text-purple-700 hover:bg-purple-50 hover:border-purple-300 transition-colors '' @
                      (if shouldPulse then ''animate-pulse'' else [])),
           OnClick (Dispatch LeaveMessage)]
          [Element ''span'' [ClassName ''mr-2'']
             [TextNode [CHR 0xC3, CHR 0xB0, CHR 0xC5, CHR 0xB8, CHR 0xE2, CHR 0x80, CHR 0x99,
                        CHR 0xC5, CHR 0x92]],
           TextNode ''Leave a message for host'']]"

definition rating_section :: "previewMode \<Rightarrow> node" where
  "rating_section previewMode =
     Element ''div'' [ClassName ''text-center space-y-3'']
       [Element ''p''
          [ClassName (''text-gray-700 '' @
                      (if previewMode = mobile then ''text-sm'' else ''text-base''))]
          [TextNode ''Was this experience delightful?''],
        Element ''div'' [ClassName ''flex justify-center gap-6'']
          [Element ''button''
             [ClassName ''group flex flex-col items-center gap-1 p-2 rounded-lg hover:bg-green-50 transition-colors'']
             [Element ''div''
                [ClassName ''w-10 h-10 bg-green-100 rounded-full flex items-center justify-center group-hover:bg-green-200 transition-colors'']
                [Element ''ThumbsUp'' [ClassName ''w-5 h-5 text-green-600''] []],
              Element ''span''
                [ClassName (''text-green-600 font-medium '' @
                            (if previewMode = mobile then ''text-xs'' else ''text-sm''))]
                [TextNode ''Yes'']],
           Element ''button''
             [ClassName ''group flex flex-col items-center gap-1 p-2 rounded-lg hover:bg-red-50 transition-colors'']
             [Element ''div''
                [ClassName ''w-10 h-10 bg-red-100 rounded-full flex items-center justify-center group-hover:bg-red-200 transition-colors'']
                [Element ''ThumbsDown'' [ClassName ''w-5 h-5 text-red-600''] []],
              Element ''span''
                [ClassName (''text-red-600 font-medium '' @
                            (if previewMode = mobile then ''text-xs'' else ''text-sm''))]
                [TextNode ''No'']]],
        Element ''p''
          [ClassName (''text-gray-500 '' @
                      (if previewMode = mobile then ''text-xs'' else ''text-sm''))]
          [TextNode ''Thank you for your feedback!'']]"

definition feedback_section :: "previewMode \<Rightarrow> bool \<Rightarrow> bool \<Rightarrow> node" where
  "feedback_section previewMode shouldPulse rating =
     (if \<not> rating then feedback_button previewMode shouldPulse
      else rating_section previewMode)"

definition action_button :: "previewMode \<Rightarrow> Button \<Rightarrow> node list" where
  "action_button previewMode b =
     (if btn_show b then
        [Element ''Button''
           [ClassName ((if previewMode = desktop then ''flex-1'' else ''w-full text-sm'') @
                       '' text-white hover:opacity-90''),
            Style ''backgroundColor'' (btn_color b),
            OnClick (WindowOpen (btn_url b) ''_blank'')]
           [TextNode (btn_text b)]]
      else [])"

definition text_column :: "(date \<Rightarrow> string) \<Rightarrow> LandingPageData \<Rightarrow> previewMode \<Rightarrow> node" where
  "text_column format_date data previewMode =
     Element ''div'' [ClassName ''space-y-6'']
       ([Element ''div'' [ClassName ''space-y-3'']
           [Element ''h1''
              [ClassName (''font-bold leading-tight '' @
                          (if previewMode = mobile then ''text-xl'' else ''text-4xl'')),
               Style ''color'' (titleColor data)]
              [TextNode (renderDynamicText (title data))],
            Element ''p''
              [ClassName (''leading-relaxed '' @
                          (if previewMode = mobile then ''text-sm'' else ''text-lg'')),
               Style ''color'' (descriptionColor data),
               DangerouslySetInnerHTML (renderRichTextWithDynamicFields (description data))]
              []]]
        @ (if showDate data then
             (case selectedDate data of
                None \<Rightarrow> []
              | Some t \<Rightarrow>
                  [Element ''div''
                     [ClassName (''flex items-center gap-2 font-medium '' @
                                 (if previewMode = mobile then ''text-sm'' else ''text-base'')),
                      Style ''color'' (dateColor data)]
                     [Element ''CalendarIcon''
                        [ClassName (if previewMode = mobile then ''w-4 h-4'' else ''w-5 h-5'')]
                        [],
                      TextNode (format_date t)]])
           else []))"

definition resource_column ::
  "LandingPageData \<Rightarrow> previewMode \<Rightarrow> bool \<Rightarrow> bool \<Rightarrow> node" where
  "resource_column data previewMode shouldPulse rating =
     Element ''div'' [ClassName ''space-y-6'']
       ([Element ''div'' [ClassName ''rounded-lg overflow-hidden bg-gray-100'']
           [if resourceType data = RImage then
              Element ''img''
                [Src (or_placeholder (resourceUrl data)), Alt ''Resource'',
                 ClassName (''w-full object-cover '' @
                            (if previewMode = mobile then ''h-32'' else ''h-64''))]
                []
            else
              Element ''div''
                [ClassName (''w-full bg-gray-900 flex items-center justify-center '' @
                            (if previewMode = mobile then ''h-32'' else ''h-64''))]
                [Element ''div'' [ClassName ''text-center text-white'']
                   [Element ''Play''
                      [ClassName (''mx-auto mb-2 '' @
                                  (if previewMode = mobile then ''w-8 h-8'' else ''w-12 h-12''))]
                      [],
                    Element ''p''
                      [ClassName (if previewMode = mobile then ''text-xs'' else ''text-sm'')]
                      [TextNode ''Video Player'']]]]]
        @ (if btn_show (button1 data) \<or> btn_show (button2 data) then
             [Element ''div''
                [ClassName (''space-y-3 '' @ (if previewMode = desktop then [] else []))]
                [Element ''div''
                   [ClassName (if previewMode = desktop then ''flex flex-col sm:flex-row gap-3''
                               else ''space-y-2'')]
                   (action_button previewMode (button1 data) @
                    action_button previewMode (button2 data)),
                 feedback_section previewMode shouldPulse rating]]
           else [])
        @ (if \<not> btn_show (button1 data) \<and> \<not> btn_show (button2 data) then
             [Element ''div'' [ClassName ''space-y-3'']
                [feedback_section previewMode shouldPulse rating]]
           else []))"

text \<open>
  \<open>format_date\<close> is \<^verbatim>\<open>format(date, "MMMM d, yyyy")\<close> of the date library; \<open>shouldPulse\<close>
  and the feedback cells are the rest of the state the rendering reads.
\<close>

definition renderLandingPageContent ::
  "(date \<Rightarrow> string) \<Rightarrow> LandingPageData \<Rightarrow> previewMode \<Rightarrow> bool \<Rightarrow> feedback \<Rightarrow> node" where
  "renderLandingPageContent format_date data previewMode shouldPulse s =
     Element ''div''
       (ClassName ((if previewMode = mobile then ''p-6'' else ''p-8'') @
                   '' space-y-6 min-h-full'') #
        getBackgroundStyle data)
       ([Element ''div'' [ClassName ''flex justify-end'']
           [Element ''img''
              [Src (or_placeholder (logo data)), Alt ''Logo'',
               ClassName (if previewMode = mobile then ''h-8'' else ''h-10'')]
              []],
         Element ''div''
           [ClassName (if previewMode = desktop then ''grid lg:grid-cols-2 gap-12 items-start''
                       else ''space-y-6'')]
           [text_column format_date data previewMode,
            resource_column data previewMode shouldPulse (showRating s)]]
        @ FeedbackModal s previewMode)"

text \<open>
  A rendering with its layout taken away: every class name removed, everything else
  kept in place.
\<close>

fun is_class :: "attr \<Rightarrow> bool" where
  "is_class (ClassName c) = True"
| "is_class a = False"

fun erase_class :: "node \<Rightarrow> node" where
  "erase_class (Element tag attrs children) =
     Element tag (filter (\<lambda>a. \<not> is_class a) attrs) (map erase_class children)"
| "erase_class (TextNode t) = TextNode t"

text \<open>
  What a visitor can read or operate, in document order: texts, markup, image sources,
  click actions and text entry. A disabled element does not react to a click.
\<close>

datatype item = Txt string | Markup string | Image string | Click action | Edit

fun attr_items :: "attr \<Rightarrow> item list" where
  "attr_items (Src u) = [Image u]"
| "attr_items (OnClick a) = [Click a]"
| "attr_items OnChangeText = [Edit]"
| "attr_items (DangerouslySetInnerHTML h) = [Markup h]"
| "attr_items a = []"

fun is_click :: "attr \<Rightarrow> bool" where
  "is_click (OnClick a) = True"
| "is_click a = False"

definition operable :: "attr list \<Rightarrow> attr list" where
  "operable attrs =
     (if Disabled True \<in> set attrs then filter (\<lambda>a. \<not> is_click a) attrs else attrs)"

fun content :: "node \<Rightarrow> item list" where
  "content (Element tag attrs children) =
     concat (map attr_items (operable attrs)) @ concat (map content children)"
| "content (TextNode t) = [Txt t]"

text \<open>The control an action of the feedback interaction is performed on.\<close>

fun control :: "event \<Rightarrow> item" where
  "control (TypeText v) = Edit"
| "control e = Click (Dispatch e)"

text \<open>
  The semantic content of a document, said without the rendering: the substituted title,
  the substituted description markup and, when the date is shown and set, the formatted
  date; for each shown button its target and its label; and what stands for the
  resource.
\<close>

definition text_items :: "(date \<Rightarrow> string) \<Rightarrow> LandingPageData \<Rightarrow> item list" where
  "text_items format_date d =
     [Txt (renderDynamicText (title d)), Markup (renderDynamicText (description d))] @
     (if showDate d then
        (case selectedDate d of None \<Rightarrow> [] | Some t \<Rightarrow> [Txt (format_date t)])
      else [])"

definition button_items :: "Button \<Rightarrow> item list" where
  "button_items b =
     (if btn_show b then [Click (WindowOpen (btn_url b) ''_blank''), Txt (btn_text b)] else [])"

definition resource_items :: "LandingPageData \<Rightarrow> item list" where
  "resource_items d =
     (if resourceType d = RImage then [Image (or_placeholder (resourceUrl d))]
      else [Txt ''Video Player''])"

definition content_list :: "node list \<Rightarrow> item list" where
  "content_list ns = concat (map content ns)"

section \<open>The contact card\<close>

text \<open>
  \<^verbatim>\<open>handleSaveVCard\<close> of \<^verbatim>\<open>src/app/page.tsx\<close>: the template literal, of ten lines
  separated by line feeds, is the content of a blob of type \<^verbatim>\<open>text/vcard\<close> offered for
  download as \<^verbatim>\<open>alex-johnson.vcf\<close>.
\<close>

definition vCardData :: string where
  "vCardData =
     ''BEGIN:VCARD'' @ [CHR 0x0A] @
     ''VERSION:3.0'' @ [CHR 0x0A] @
     ''FN:Alex Johnson'' @ [CHR 0x0A] @
     ''ORG:Delightloop'' @ [CHR 0x0A] @
     ''TITLE:Senior Product Designer'' @ [CHR 0x0A] @
     ''TEL:+1-555-0123'' @ [CHR 0x0A] @
     ''EMAIL:alex@delightloop.com'' @ [CHR 0x0A] @
     ''URL:https://linkedin.com/in/alexjohnson'' @ [CHR 0x0A] @
     ''ADR:;;123 Innovation Drive;San Francisco;CA;94105;USA'' @ [CHR 0x0A] @
     ''END:VCARD''"

record download =
  blob_content :: string
  blob_type :: string
  file_name :: string

definition handleSaveVCard :: download where
  "handleSaveVCard =
     \<lparr>blob_content = vCardData, blob_type = ''text/vcard'', file_name = ''alex-johnson.vcf''\<rparr>"

text \<open>Reading a record: its lines, the name of a line, its value, the parts of a value.\<close>

fun split_at :: "char \<Rightarrow> string \<Rightarrow> string list" where
  "split_at sep [] = [[]]"
| "split_at sep (c # cs) =
     (if c = sep then [] # split_at sep cs
      else (case split_at sep cs of
              [] \<Rightarrow> [[c]]
            | l # ls \<Rightarrow> (c # l) # ls))"

definition property_name :: "string \<Rightarrow> string" where
  "property_name l = takeWhile (\<lambda>c. c \<noteq> CHR '':'') l"

definition property_value :: "string \<Rightarrow> string" where
  "property_value l = drop 1 (dropWhile (\<lambda>c. c \<noteq> CHR '':'') l)"

section \<open>Properties of the substitution\<close>

subsection \<open>The pattern at the start of a text\<close>

lemma matchAt_not_open: "c \<noteq> CHR ''{'' \<Longrightarrow> matchAt (c # cs) = None"
  by (simp add: matchAt_def split: list.splits)

lemma matchAt_not_open2: "d \<noteq> CHR ''{'' \<Longrightarrow> matchAt (c # d # cs) = None"
  by (simp add: matchAt_def)

lemma matchAt_token:
  assumes "is_name n"
  shows "matchAt (''{{'' @ n @ ''}}'' @ rest) = Some (n, rest)"
proof -
  let ?P = "\<lambda>c. c \<noteq> CHR ''}''"
  from assms have ne: "n \<noteq> []" and nb: "\<And>x. x \<in> set n \<Longrightarrow> ?P x"
    by (auto simp: is_name_def)
  have tw: "takeWhile ?P (n @ CHR ''}'' # CHR ''}'' # rest) = n"
    using nb by simp
  have dw: "dropWhile ?P (n @ CHR ''}'' # CHR ''}'' # rest) = CHR ''}'' # CHR ''}'' # rest"
    using nb by simp
  show ?thesis
    using ne by (simp add: matchAt_def tw dw)
qed

lemma matchAt_SomeD:
  assumes "matchAt s = Some (n, rest)"
  shows "is_name n \<and> s = ''{{'' @ n @ ''}}'' @ rest"
proof -
  let ?P = "\<lambda>c. c \<noteq> CHR ''}''"
  from assms obtain t where s: "s = CHR ''{'' # CHR ''{'' # t"
    by (auto simp: matchAt_def split: list.splits if_splits)
  from assms s obtain x where d: "dropWhile ?P t = x # CHR ''}'' # rest"
    and n: "n = takeWhile ?P t" and ne: "n \<noteq> []"
    by (auto simp: matchAt_def Let_def split: list.splits if_splits)
  have "\<not> ?P (hd (dropWhile ?P t))"
    using d by (intro hd_dropWhile) auto
  with d have x: "x = CHR ''}''" by simp
  have "t = takeWhile ?P t @ dropWhile ?P t" by simp
  with d n x have t: "t = n @ ''}}'' @ rest" by simp
  have "CHR ''}'' \<notin> set n"
    using n by (auto dest: set_takeWhileD)
  with ne s t show ?thesis by (simp add: is_name_def)
qed

lemma matchAt_iff:
  "matchAt s = Some (n, rest) \<longleftrightarrow> is_name n \<and> s = ''{{'' @ n @ ''}}'' @ rest"
  using matchAt_token matchAt_SomeD by blast

lemma matchAt_None_iff:
  "matchAt s = None \<longleftrightarrow> \<not> (\<exists>n rest. is_name n \<and> s = ''{{'' @ n @ ''}}'' @ rest)"
proof
  assume "matchAt s = None"
  then show "\<not> (\<exists>n rest. is_name n \<and> s = ''{{'' @ n @ ''}}'' @ rest)"
    using matchAt_token by fastforce
next
  assume a: "\<not> (\<exists>n rest. is_name n \<and> s = ''{{'' @ n @ ''}}'' @ rest)"
  show "matchAt s = None"
  proof (cases "matchAt s")
    case None
    then show ?thesis .
  next
    case (Some p)
    obtain n rest where "p = (n, rest)" by (cases p)
    with Some a matchAt_SomeD [of s n rest] show ?thesis by blast
  qed
qed

subsection \<open>The scan\<close>

lemma render_token:
  "is_name n \<Longrightarrow>
   renderDynamicText (''{{'' @ n @ ''}}'' @ rest) = replacer n @ renderDynamicText rest"
  using matchAt_token [of n rest] by simp

lemma render_copy:
  "\<not> (\<exists>n rest. is_name n \<and> c # cs = ''{{'' @ n @ ''}}'' @ rest) \<Longrightarrow>
   renderDynamicText (c # cs) = c # renderDynamicText cs"
  using matchAt_None_iff [of "c # cs"] by simp

lemma render_before_token:
  assumes "is_name n" and "\<not> (\<exists>u v. pre @ ''{'' = u @ ''{{'' @ v)"
  shows "renderDynamicText (pre @ ''{{'' @ n @ ''}}'' @ rest)
           = pre @ replacer n @ renderDynamicText rest"
  using assms(2)
proof (induction pre)
  case Nil
  show ?case using render_token [OF assms(1), of rest] by simp
next
  case (Cons c pre)
  have inner: "\<not> (\<exists>u v. pre @ ''{'' = u @ ''{{'' @ v)"
  proof
    assume "\<exists>u v. pre @ ''{'' = u @ ''{{'' @ v"
    then obtain u v where "pre @ ''{'' = u @ ''{{'' @ v" by blast
    then have "(c # pre) @ ''{'' = (c # u) @ ''{{'' @ v" by simp
    with Cons.prems show False by blast
  qed
  have m: "matchAt (c # pre @ ''{{'' @ n @ ''}}'' @ rest) = None"
  proof (cases "c = CHR ''{''")
    case False
    then show ?thesis by (rule matchAt_not_open)
  next
    case True
    obtain d ds where ds: "pre @ ''{{'' @ n @ ''}}'' @ rest = d # ds"
      and hd: "pre @ ''{'' = d # take (length pre) ds"
      by (cases pre) auto
    have "d \<noteq> CHR ''{''"
    proof
      assume "d = CHR ''{''"
      with True hd have "(c # pre) @ ''{'' = [] @ ''{{'' @ take (length pre) ds" by simp
      with Cons.prems show False by blast
    qed
    then show ?thesis unfolding ds by (rule matchAt_not_open2)
  qed
  from Cons.IH [OF inner] m show ?case by simp
qed

lemma has_token_Cons: "has_token cs \<Longrightarrow> has_token (c # cs)"
proof -
  assume "has_token cs"
  then obtain pre n post where "is_name n" "cs = pre @ ''{{'' @ n @ ''}}'' @ post"
    unfolding has_token_def by blast
  then have "is_name n" "c # cs = (c # pre) @ ''{{'' @ n @ ''}}'' @ post" by simp_all
  then show ?thesis unfolding has_token_def by blast
qed

lemma has_token_start: "matchAt s = Some (n, rest) \<Longrightarrow> has_token s"
proof -
  assume "matchAt s = Some (n, rest)"
  then have "is_name n" "s = [] @ ''{{'' @ n @ ''}}'' @ rest"
    using matchAt_SomeD by simp_all
  then show ?thesis unfolding has_token_def by blast
qed

lemma no_brace_no_token: "CHR ''{'' \<notin> set T \<Longrightarrow> \<not> has_token T"
  by (auto simp: has_token_def)

text \<open>
  A text with a token holds two opening braces and, later, two closing ones; so a text
  without such a pair has no token.
\<close>

lemma has_token_braces:
  "has_token T \<Longrightarrow> \<exists>pre mid post. T = pre @ ''{{'' @ mid @ ''}}'' @ post"
  unfolding has_token_def by blast

subsection \<open>The table\<close>

lemma replacer_known:
  "replacer ''first-name'' = ''Sarah''"
  "replacer ''last-name'' = ''Johnson''"
  "replacer ''company'' = ''Acme Corp''"
  "replacer ''gift-name'' = ''Premium Package''"
  by (simp_all add: replacer_def get_property_def sampleData_def)

lemma replacer_unknown:
  "map_of sampleData n = None \<Longrightarrow> map_of Object_prototype n = None \<Longrightarrow>
   replacer n = ''['' @ n @ '']''"
  by (simp add: replacer_def get_property_def)

lemma substitute_examples:
  "renderDynamicText ''Hi {{first-name}}'' = ''Hi Sarah''"
  "renderDynamicText ''{{unknown}}'' = ''[unknown]''"
  by (simp_all add: matchAt_def replacer_def get_property_def sampleData_def
        Object_prototype_def)

text \<open>
  Claim C1. Every token with one of the four known names is replaced by its sample
  value, and every token with another name by the name in square brackets. The lookup
  \<^verbatim>\<open>sampleData[field]\<close> also finds what the object inherits, so a token named after a
  property of \<^verbatim>\<open>Object.prototype\<close> is replaced by the text of that property instead of
  the bracketed name: the token \<^verbatim>\<open>{{constructor}}\<close> becomes the text of the function
  \<^verbatim>\<open>Object\<close>.
\<close>

theorem renderDynamicText_inherited_name:
  "renderDynamicText ''{{constructor}}'' = ''function Object() { [native code] }'' \<and>
   renderDynamicText ''{{constructor}}'' \<noteq> ''[constructor]''"
  by (simp add: matchAt_def replacer_def get_property_def sampleData_def
        Object_prototype_def)

text \<open>
  Claim C2, as stated: a token is whatever stands between the first two opening braces
  and the next two closing braces, so that a name with a closing brace in it is one
  token. The pattern's name is \<^verbatim>\<open>[^}]+\<close>: the text \<^verbatim>\<open>{{a}b}}\<close> has no token and is
  returned as it is, not as the bracketed name.
\<close>

theorem token_with_closing_brace_counterexample:
  "renderDynamicText ''{{a}b}}'' = ''{{a}b}}'' \<and> renderDynamicText ''{{a}b}}'' \<noteq> ''[a}b]''"
  by (simp add: matchAt_def)

text \<open>
  Claim C2, amended. A token is two opening braces, a non-empty name without a closing
  brace, and two closing braces. The scan is one pass from left to right: the text before
  the first pair of opening braces is copied, a token that follows is replaced by the
  table's text, which is not scanned, and the scan goes on after the token. Where no token
  starts, one character is copied and the scan goes on after it.
\<close>

theorem renderDynamicText_scan:
  "(is_name n \<and> \<not> (\<exists>u v. pre @ ''{'' = u @ ''{{'' @ v) \<longrightarrow>
      renderDynamicText (pre @ ''{{'' @ n @ ''}}'' @ rest)
        = pre @ replacer n @ renderDynamicText rest) \<and>
   (\<not> (\<exists>n rest. is_name n \<and> c # cs = ''{{'' @ n @ ''}}'' @ rest) \<longrightarrow>
      renderDynamicText (c # cs) = c # renderDynamicText cs)"
  using render_before_token [of n pre rest] render_copy [of c cs] by blast

theorem renderDynamicText_scan_witness:
  "is_name ''first-name'' \<and> \<not> (\<exists>u v. ''Hi '' @ ''{'' = u @ ''{{'' @ v) \<and>
   renderDynamicText (''Hi '' @ ''{{'' @ ''first-name'' @ ''}}'' @ ''!'')
     = ''Hi '' @ replacer ''first-name'' @ renderDynamicText ''!'' \<and>
   \<not> (\<exists>n rest. is_name n \<and> CHR ''{'' # ''{a}b}}'' = ''{{'' @ n @ ''}}'' @ rest) \<and>
   renderDynamicText (CHR ''{'' # ''{a}b}}'') = CHR ''{'' # renderDynamicText ''{a}b}}''"
proof -
  have h1: "is_name ''first-name''"
    by (simp add: is_name_def)
  have h2: "\<not> (\<exists>u v. ''Hi '' @ ''{'' = u @ ''{{'' @ v)"
    by (auto simp: append_eq_Cons_conv Cons_eq_append_conv)
  have h3: "\<not> (\<exists>n rest. is_name n \<and> CHR ''{'' # ''{a}b}}'' = ''{{'' @ n @ ''}}'' @ rest)"
    by (auto simp: is_name_def append_eq_Cons_conv Cons_eq_append_conv)
  from h1 h2 h3
    renderDynamicText_scan [of "''first-name''" "''Hi ''" "''!''" "CHR ''{''" "''{a}b}}''"]
  show ?thesis by blast
qed

text \<open>
  Claim C8. The substitution returns a text without a token as it is.
\<close>

theorem renderDynamicText_token_free: "\<not> has_token T \<Longrightarrow> renderDynamicText T = T"
proof (induction T rule: renderDynamicText.induct)
  case 1
  show ?case by simp
next
  case (2 c cs)
  have m: "matchAt (c # cs) = None"
  proof (cases "matchAt (c # cs)")
    case None
    then show ?thesis .
  next
    case (Some p)
    obtain n rest where "p = (n, rest)" by (cases p)
    with Some have "has_token (c # cs)" by (auto dest: has_token_start)
    with "2.prems" show ?thesis by simp
  qed
  have "\<not> has_token cs"
    using "2.prems" has_token_Cons by blast
  with "2.IH" m have "renderDynamicText cs = cs" by simp
  with m show ?case by simp
qed

theorem renderDynamicText_token_free_witness:
  "\<not> has_token ''Welcome to our event!'' \<and>
   renderDynamicText ''Welcome to our event!'' = ''Welcome to our event!''"
proof -
  have h: "\<not> has_token ''Welcome to our event!''"
    by (rule no_brace_no_token) simp
  from h renderDynamicText_token_free [OF h] show ?thesis by simp
qed

section \<open>Properties of the merge\<close>

text \<open>
  Claim C3, as stated: the two buttons are merged key by key, so a key the seed gives
  replaces the default's. The seed \<^verbatim>\<open>{ button1: { text: "" } }\<close> gives the first
  button's text, and the merged document still holds the default text: the guard
  \<^verbatim>\<open>initial.button1?.text && ...\<close> passes over an empty string.
\<close>

theorem mergeInitialData_nested_empty_counterexample:
  "chain (init_button1 (empty_seed\<lparr>init_button1 := Some (empty_button\<lparr>init_text := Some []\<rparr>)\<rparr>))
     init_text = Some [] \<and>
   btn_text (button1 (mergeInitialData (defaultData 0)
     (Some (empty_seed\<lparr>init_button1 := Some (empty_button\<lparr>init_text := Some []\<rparr>)\<rparr>))))
     = ''Track My Gift'' \<and>
   btn_text (button1 (mergeInitialData (defaultData 0)
     (Some (empty_seed\<lparr>init_button1 := Some (empty_button\<lparr>init_text := Some []\<rparr>)\<rparr>))))
     \<noteq> []"
  by (simp add: mergeInitialData_def defaultData_def empty_seed_def empty_button_def)

text \<open>
  Claim C3, amended. What the merged document holds at each field, for every seed and
  every defaults:
  \<^item> at the logo, the title, the description and the resource address, the seed's
    string when the seed gives one that is not empty, the default when the seed omits
    the field or gives the empty string;
  \<^item> at the resource type, the date and the date switch, the seed's value when the
    seed gives one (the switch set to false included), the default otherwise;
  \<^item> at the three colours, the background and the two buttons' \<^verbatim>\<open>show\<close>, which a seed
    cannot set, the default;
  \<^item> at the text, the target and the colour of each button, field by field: the
    seed's string when the seed has the button and gives the field a string that is not
    empty, the default when the seed has no such button, omits the field or gives the
    empty string, \<open>chain\<close> being the read \<^verbatim>\<open>initial.button1?.text\<close>.

  The seed \<^verbatim>\<open>{}\<close>, like no seed, gives the defaults, and the seed
  \<^verbatim>\<open>{ button1: { text: "X" } }\<close> changes the first button's text and nothing else.
\<close>

theorem mergeInitialData_field_by_field:
  "mergeInitialData defaults None = defaults \<and>
   mergeInitialData defaults (Some empty_seed) = defaults \<and>
   (let m = mergeInitialData defaults (Some i) in
      (\<forall>v. init_logo i = Some v \<and> v \<noteq> [] \<longrightarrow> logo m = v) \<and>
      (init_logo i = None \<or> init_logo i = Some [] \<longrightarrow> logo m = logo defaults) \<and>
      (\<forall>v. init_title i = Some v \<and> v \<noteq> [] \<longrightarrow> title m = v) \<and>
      (init_title i = None \<or> init_title i = Some [] \<longrightarrow> title m = title defaults) \<and>
      (\<forall>v. init_description i = Some v \<and> v \<noteq> [] \<longrightarrow> description m = v) \<and>
      (init_description i = None \<or> init_description i = Some [] \<longrightarrow>
         description m = description defaults) \<and>
      (\<forall>v. init_resourceUrl i = Some v \<and> v \<noteq> [] \<longrightarrow> resourceUrl m = v) \<and>
      (init_resourceUrl i = None \<or> init_resourceUrl i = Some [] \<longrightarrow>
         resourceUrl m = resourceUrl defaults) \<and>
      (\<forall>r. init_resourceType i = Some r \<longrightarrow> resourceType m = r) \<and>
      (init_resourceType i = None \<longrightarrow> resourceType m = resourceType defaults) \<and>
      (\<forall>t. init_selectedDate i = Some t \<longrightarrow> selectedDate m = Some t) \<and>
      (init_selectedDate i = None \<longrightarrow> selectedDate m = selectedDate defaults) \<and>
      (\<forall>b. init_showDate i = Some b \<longrightarrow> showDate m = b) \<and>
      (init_showDate i = None \<longrightarrow> showDate m = showDate defaults) \<and>
      titleColor m = titleColor defaults \<and>
      descriptionColor m = descriptionColor defaults \<and>
      dateColor m = dateColor defaults \<and>
      background m = background defaults \<and>
      btn_show (button1 m) = btn_show (button1 defaults) \<and>
      btn_show (button2 m) = btn_show (button2 defaults) \<and>
      (\<forall>v. chain (init_button1 i) init_text = Some v \<and> v \<noteq> [] \<longrightarrow> btn_text (button1 m) = v) \<and>
      (chain (init_button1 i) init_text = None \<or> chain (init_button1 i) init_text = Some [] \<longrightarrow>
         btn_text (button1 m) = btn_text (button1 defaults)) \<and>
      (\<forall>v. chain (init_button1 i) init_url = Some v \<and> v \<noteq> [] \<longrightarrow> btn_url (button1 m) = v) \<and>
      (chain (init_button1 i) init_url = None \<or> chain (init_button1 i) init_url = Some [] \<longrightarrow>
         btn_url (button1 m) = btn_url (button1 defaults)) \<and>
      (\<forall>v. chain (init_button1 i) init_color = Some v \<and> v \<noteq> [] \<longrightarrow> btn_color (button1 m) = v) \<and>
      (chain (init_button1 i) init_color = None \<or> chain (init_button1 i) init_color = Some [] \<longrightarrow>
         btn_color (button1 m) = btn_color (button1 defaults)) \<and>
      (\<forall>v. chain (init_button2 i) init_text = Some v \<and> v \<noteq> [] \<longrightarrow> btn_text (button2 m) = v) \<and>
      (chain (init_button2 i) init_text = None \<or> chain (init_button2 i) init_text = Some [] \<longrightarrow>
         btn_text (button2 m) = btn_text (button2 defaults)) \<and>
      (\<forall>v. chain (init_button2 i) init_url = Some v \<and> v \<noteq> [] \<longrightarrow> btn_url (button2 m) = v) \<and>
      (chain (init_button2 i) init_url = None \<or> chain (init_button2 i) init_url = Some [] \<longrightarrow>
         btn_url (button2 m) = btn_url (button2 defaults)) \<and>
      (\<forall>v. chain (init_button2 i) init_color = Some v \<and> v \<noteq> [] \<longrightarrow> btn_color (button2 m) = v) \<and>
      (chain (init_button2 i) init_color = None \<or> chain (init_button2 i) init_color = Some [] \<longrightarrow>
         btn_color (button2 m) = btn_color (button2 defaults)) \<and>
      (init_button1 i = None \<longrightarrow> button1 m = button1 defaults) \<and>
      (init_button2 i = None \<longrightarrow> button2 m = button2 defaults)) \<and>
   (let m = mergeInitialData defaults
              (Some (empty_seed\<lparr>init_button1 := Some (empty_button\<lparr>init_text := Some ''X''\<rparr>)\<rparr>))
    in btn_text (button1 m) = ''X'' \<and>
       btn_url (button1 m) = btn_url (button1 defaults) \<and>
       btn_color (button1 m) = btn_color (button1 defaults) \<and>
       btn_show (button1 m) = btn_show (button1 defaults) \<and>
       m = defaults\<lparr>button1 := (button1 defaults)\<lparr>btn_text := ''X''\<rparr>\<rparr>)"
proof -
  have a: "mergeInitialData defaults None = defaults"
    by (simp add: mergeInitialData_def)
  have b: "mergeInitialData defaults (Some empty_seed) = defaults"
    by (simp add: mergeInitialData_def empty_seed_def)
  have taken: "x = Some v \<Longrightarrow> v \<noteq> [] \<Longrightarrow> spread_string dflt x = v" for x v dflt
    by simp
  have kept: "x = None \<or> x = Some [] \<Longrightarrow> spread_string dflt x = dflt" for x dflt
    by auto
  have given: "x = Some v \<Longrightarrow> spread_present dflt x = v" for x and v dflt :: 'a
    by simp
  have omitted: "x = None \<Longrightarrow> spread_present dflt x = dflt" for x and dflt :: 'a
    by simp
  have scalars:
    "\<forall>v. init_logo i = Some v \<and> v \<noteq> [] \<longrightarrow> logo (mergeInitialData defaults (Some i)) = v"
    "init_logo i = None \<or> init_logo i = Some [] \<longrightarrow>
       logo (mergeInitialData defaults (Some i)) = logo defaults"
    "\<forall>v. init_title i = Some v \<and> v \<noteq> [] \<longrightarrow> title (mergeInitialData defaults (Some i)) = v"
    "init_title i = None \<or> init_title i = Some [] \<longrightarrow>
       title (mergeInitialData defaults (Some i)) = title defaults"
    "\<forall>v. init_description i = Some v \<and> v \<noteq> [] \<longrightarrow>
       description (mergeInitialData defaults (Some i)) = v"
    "init_description i = None \<or> init_description i = Some [] \<longrightarrow>
       description (mergeInitialData defaults (Some i)) = description defaults"
    "\<forall>v. init_resourceUrl i = Some v \<and> v \<noteq> [] \<longrightarrow>
       resourceUrl (mergeInitialData defaults (Some i)) = v"
    "init_resourceUrl i = None \<or> init_resourceUrl i = Some [] \<longrightarrow>
       resourceUrl (mergeInitialData defaults (Some i)) = resourceUrl defaults"
    by (auto simp: mergeInitialData_def)
  have others:
    "\<forall>r. init_resourceType i = Some r \<longrightarrow> resourceType (mergeInitialData defaults (Some i)) = r"
    "init_resourceType i = None \<longrightarrow>
       resourceType (mergeInitialData defaults (Some i)) = resourceType defaults"
    "\<forall>t. init_selectedDate i = Some t \<longrightarrow>
       selectedDate (mergeInitialData defaults (Some i)) = Some t"
    "init_selectedDate i = None \<longrightarrow>
       selectedDate (mergeInitialData defaults (Some i)) = selectedDate defaults"
    "\<forall>b. init_showDate i = Some b \<longrightarrow> showDate (mergeInitialData defaults (Some i)) = b"
    "init_showDate i = None \<longrightarrow>
       showDate (mergeInitialData defaults (Some i)) = showDate defaults"
    by (auto simp: mergeInitialData_def)
  have fixed:
    "titleColor (mergeInitialData defaults (Some i)) = titleColor defaults"
    "descriptionColor (mergeInitialData defaults (Some i)) = descriptionColor defaults"
    "dateColor (mergeInitialData defaults (Some i)) = dateColor defaults"
    "background (mergeInitialData defaults (Some i)) = background defaults"
    "btn_show (button1 (mergeInitialData defaults (Some i))) = btn_show (button1 defaults)"
    "btn_show (button2 (mergeInitialData defaults (Some i))) = btn_show (button2 defaults)"
    by (simp_all add: mergeInitialData_def)
  have b1:
    "\<forall>v. chain (init_button1 i) init_text = Some v \<and> v \<noteq> [] \<longrightarrow>
       btn_text (button1 (mergeInitialData defaults (Some i))) = v"
    "chain (init_button1 i) init_text = None \<or> chain (init_button1 i) init_text = Some [] \<longrightarrow>
       btn_text (button1 (mergeInitialData defaults (Some i))) = btn_text (button1 defaults)"
    "\<forall>v. chain (init_button1 i) init_url = Some v \<and> v \<noteq> [] \<longrightarrow>
       btn_url (button1 (mergeInitialData defaults (Some i))) = v"
    "chain (init_button1 i) init_url = None \<or> chain (init_button1 i) init_url = Some [] \<longrightarrow>
       btn_url (button1 (mergeInitialData defaults (Some i))) = btn_url (button1 defaults)"
    "\<forall>v. chain (init_button1 i) init_color = Some v \<and> v \<noteq> [] \<longrightarrow>
       btn_color (button1 (mergeInitialData defaults (Some i))) = v"
    "chain (init_button1 i) init_color = None \<or> chain (init_button1 i) init_color = Some [] \<longrightarrow>
       btn_color (button1 (mergeInitialData defaults (Some i))) = btn_color (button1 defaults)"
    by (auto simp: mergeInitialData_def taken kept)
  have b2:
    "\<forall>v. chain (init_button2 i) init_text = Some v \<and> v \<noteq> [] \<longrightarrow>
       btn_text (button2 (mergeInitialData defaults (Some i))) = v"
    "chain (init_button2 i) init_text = None \<or> chain (init_button2 i) init_text = Some [] \<longrightarrow>
       btn_text (button2 (mergeInitialData defaults (Some i))) = btn_text (button2 defaults)"
    "\<forall>v. chain (init_button2 i) init_url = Some v \<and> v \<noteq> [] \<longrightarrow>
       btn_url (button2 (mergeInitialData defaults (Some i))) = v"
    "chain (init_button2 i) init_url = None \<or> chain (init_button2 i) init_url = Some [] \<longrightarrow>
       btn_url (button2 (mergeInitialData defaults (Some i))) = btn_url (button2 defaults)"
    "\<forall>v. chain (init_button2 i) init_color = Some v \<and> v \<noteq> [] \<longrightarrow>
       btn_color (button2 (mergeInitialData defaults (Some i))) = v"
    "chain (init_button2 i) init_color = None \<or> chain (init_button2 i) init_color = Some [] \<longrightarrow>
       btn_color (button2 (mergeInitialData defaults (Some i))) = btn_color (button2 defaults)"
    by (auto simp: mergeInitialData_def taken kept)
  have whole:
    "init_button1 i = None \<longrightarrow> button1 (mergeInitialData defaults (Some i)) = button1 defaults"
    "init_button2 i = None \<longrightarrow> button2 (mergeInitialData defaults (Some i)) = button2 defaults"
    by (simp_all add: mergeInitialData_def)
  have x: "let m = mergeInitialData defaults
              (Some (empty_seed\<lparr>init_button1 := Some (empty_button\<lparr>init_text := Some ''X''\<rparr>)\<rparr>))
    in btn_text (button1 m) = ''X'' \<and>
       btn_url (button1 m) = btn_url (button1 defaults) \<and>
       btn_color (button1 m) = btn_color (button1 defaults) \<and>
       btn_show (button1 m) = btn_show (button1 defaults) \<and>
       m = defaults\<lparr>button1 := (button1 defaults)\<lparr>btn_text := ''X''\<rparr>\<rparr>"
    by (simp add: mergeInitialData_def empty_seed_def empty_button_def)
  show ?thesis
    unfolding Let_def
    using a b scalars others fixed b1 b2 whole x [unfolded Let_def]
    by blast
qed

text \<open>
  The seed of the repository's third example: a title, and a first button with a text
  and a target. Each field of the merged document is read off the theorem.
\<close>

theorem mergeInitialData_field_by_field_witness:
  "init_title
     (empty_seed
        \<lparr>init_title := Some ''Special offer for {{company}} employees!'',
         init_button1 := Some (empty_button
           \<lparr>init_text := Some ''Claim Offer'', init_url := Some ''/claim-offer''\<rparr>)\<rparr>)
     = Some ''Special offer for {{company}} employees!'' \<and>
   chain (init_button1
     (empty_seed
        \<lparr>init_title := Some ''Special offer for {{company}} employees!'',
         init_button1 := Some (empty_button
           \<lparr>init_text := Some ''Claim Offer'', init_url := Some ''/claim-offer''\<rparr>)\<rparr>))
     init_color = None \<and>
   (let m = mergeInitialData (defaultData 0)
              (Some (empty_seed
                 \<lparr>init_title := Some ''Special offer for {{company}} employees!'',
                  init_button1 := Some (empty_button
                    \<lparr>init_text := Some ''Claim Offer'', init_url := Some ''/claim-offer''\<rparr>)\<rparr>))
    in title m = ''Special offer for {{company}} employees!'' \<and>
       logo m = logo (defaultData 0) \<and>
       showDate m = showDate (defaultData 0) \<and>
       btn_text (button1 m) = ''Claim Offer'' \<and>
       btn_url (button1 m) = ''/claim-offer'' \<and>
       btn_color (button1 m) = btn_color (button1 (defaultData 0)) \<and>
       btn_show (button1 m) = btn_show (button1 (defaultData 0)) \<and>
       button2 m = button2 (defaultData 0) \<and>
       background m = background (defaultData 0))"
  using mergeInitialData_field_by_field
    [of "defaultData 0"
        "empty_seed
           \<lparr>init_title := Some ''Special offer for {{company}} employees!'',
            init_button1 := Some (empty_button
              \<lparr>init_text := Some ''Claim Offer'', init_url := Some ''/claim-offer''\<rparr>)\<rparr>"]
  by (simp add: Let_def empty_seed_def empty_button_def)

text \<open>
  Claim C10. A seed that gives the empty string for the logo, the title, the
  description or the resource address leaves the default in place, as if the field were
  absent.
\<close>

theorem mergeInitialData_empty_string:
  "(init_logo i = Some [] \<longrightarrow> logo (mergeInitialData defaults (Some i)) = logo defaults) \<and>
   (init_title i = Some [] \<longrightarrow> title (mergeInitialData defaults (Some i)) = title defaults) \<and>
   (init_description i = Some [] \<longrightarrow>
      description (mergeInitialData defaults (Some i)) = description defaults) \<and>
   (init_resourceUrl i = Some [] \<longrightarrow>
      resourceUrl (mergeInitialData defaults (Some i)) = resourceUrl defaults)"
proof -
  have e: "spread_string dflt (Some []) = dflt" for dflt
    by simp
  have "init_logo i = Some [] \<Longrightarrow> logo (mergeInitialData defaults (Some i)) = logo defaults"
    by (simp add: mergeInitialData_def e)
  moreover
  have "init_title i = Some [] \<Longrightarrow> title (mergeInitialData defaults (Some i)) = title defaults"
    by (simp add: mergeInitialData_def e)
  moreover
  have "init_description i = Some [] \<Longrightarrow>
          description (mergeInitialData defaults (Some i)) = description defaults"
    by (simp add: mergeInitialData_def e)
  moreover
  have "init_resourceUrl i = Some [] \<Longrightarrow>
          resourceUrl (mergeInitialData defaults (Some i)) = resourceUrl defaults"
    by (simp add: mergeInitialData_def e)
  ultimately show ?thesis by blast
qed

theorem mergeInitialData_empty_string_witness:
  "(let i = empty_seed\<lparr>init_logo := Some [], init_title := Some [],
                       init_description := Some [], init_resourceUrl := Some []\<rparr>;
        m = mergeInitialData (defaultData 0) (Some i)
    in init_logo i = Some [] \<and> init_title i = Some [] \<and>
       init_description i = Some [] \<and> init_resourceUrl i = Some [] \<and>
       logo m = ''/placeholder.svg?height=40&width=120&text=Logo'' \<and>
       title m = title (defaultData 0) \<and>
       description m = description (defaultData 0) \<and>
       resourceUrl m = ''/placeholder.svg?height=400&width=600&text=Gift+Preview'' \<and>
       m = defaultData 0)"
  using mergeInitialData_empty_string
    [of "empty_seed\<lparr>init_logo := Some [], init_title := Some [],
                    init_description := Some [], init_resourceUrl := Some []\<rparr>"
        "defaultData 0"]
  by (simp add: mergeInitialData_def defaultData_def empty_seed_def)

section \<open>Properties of the store\<close>

text \<open>A document is what its thirteen fields hold.\<close>

lemma read_field_ext: "(\<And>n. read_field n a = read_field n b) \<Longrightarrow> a = b"
proof -
  assume h: "\<And>n. read_field n a = read_field n b"
  have "logo a = logo b" using h [of FLogo] by simp
  moreover have "title a = title b" using h [of FTitle] by simp
  moreover have "titleColor a = titleColor b" using h [of FTitleColor] by simp
  moreover have "description a = description b" using h [of FDescription] by simp
  moreover have "descriptionColor a = descriptionColor b" using h [of FDescriptionColor] by simp
  moreover have "showDate a = showDate b" using h [of FShowDate] by simp
  moreover have "selectedDate a = selectedDate b" using h [of FSelectedDate] by simp
  moreover have "dateColor a = dateColor b" using h [of FDateColor] by simp
  moreover have "resourceType a = resourceType b" using h [of FResourceType] by simp
  moreover have "resourceUrl a = resourceUrl b" using h [of FResourceUrl] by simp
  moreover have "button1 a = button1 b" using h [of FButton1] by simp
  moreover have "button2 a = button2 b" using h [of FButton2] by simp
  moreover have "background a = background b" using h [of FBackground] by simp
  ultimately show "a = b" by simp
qed





lemma set_background_field_named:
  "read_background_field (background_name_of gv) (set_background_field gv b) = gv"
  by (cases gv) simp_all

lemma set_background_field_frame:
  "f \<noteq> background_name_of gv \<Longrightarrow>
   read_background_field f (set_background_field gv b) = read_background_field f b"
  by (cases gv; cases f) simp_all

lemma committed_updateData [simp]:
  "committed d (updateData sink d fv) = set_field fv d"
  by (simp add: updateData_def notify_def Let_def)


lemma committed_updateBackground [simp]:
  "committed d (updateBackground sink d gv) =
     d\<lparr>background := set_background_field gv (background d)\<rparr>"
  by (simp add: updateBackground_def notify_def Let_def)

lemma background_frame:
  "n \<noteq> FBackground \<Longrightarrow> read_field n (d\<lparr>background := b\<rparr>) = read_field n d"
  by (cases n) simp_all

text \<open>
  Claim C4. \<^verbatim>\<open>updateBackground\<close> gives the named field of the background its new
  value and leaves the other four, and every field outside the background, as they
  were. So after the type is set to gradient and, on the document then held, back to
  solid, the colour and the three gradient fields are those from before, and a document
  whose type was solid is the same document again.
\<close>

theorem updateBackground_retains:
  "(let nd = committed d (updateBackground sink d gv) in
      read_background_field (background_name_of gv) (background nd) = gv \<and>
      (\<forall>f. f \<noteq> background_name_of gv \<longrightarrow>
           read_background_field f (background nd) = read_background_field f (background d)) \<and>
      (\<forall>n. n \<noteq> FBackground \<longrightarrow> read_field n nd = read_field n d)) \<and>
   (let d1 = committed d (updateBackground sink d (BgType Gradient));
        d2 = committed d1 (updateBackground sink d1 (BgType Solid)) in
      bg_type (background d1) = Gradient \<and>
      bg_color (background d1) = bg_color (background d) \<and>
      bg_type (background d2) = Solid \<and>
      bg_color (background d2) = bg_color (background d) \<and>
      gradientFrom (background d2) = gradientFrom (background d) \<and>
      gradientTo (background d2) = gradientTo (background d) \<and>
      gradientDirection (background d2) = gradientDirection (background d) \<and>
      (bg_type (background d) = Solid \<longrightarrow> d2 = d))"
  by (simp add: Let_def set_background_field_named set_background_field_frame
        background_frame)

theorem updateBackground_retains_witness:
  "(let d = set_field (BackgroundObj ((background (defaultData 0))\<lparr>bg_color := ''#123456''\<rparr>))
              (defaultData 0);
        d1 = committed d (updateBackground True d (BgType Gradient));
        d2 = committed d1 (updateBackground True d1 (BgType Solid)) in
      bg_type (background d) = Solid \<and>
      FBgColor \<noteq> background_name_of (BgType Gradient) \<and>
      FTitle \<noteq> FBackground \<and>
      read_background_field FBgColor (background d1) = BgColor ''#123456'' \<and>
      read_field FTitle d1 = read_field FTitle d \<and>
      bg_type (background d1) = Gradient \<and>
      bg_color (background d2) = ''#123456'' \<and>
      d2 = d)"
  using updateBackground_retains
    [of "set_field (BackgroundObj ((background (defaultData 0))\<lparr>bg_color := ''#123456''\<rparr>))
           (defaultData 0)" True "BgType Gradient"]
  by (simp add: Let_def defaultData_def updateBackground_def notify_def)



section \<open>Properties of the feedback interaction\<close>

lemma handle_left_idle:
  "showFeedbackModal s \<or> showRating s \<Longrightarrow>
   showFeedbackModal (handle e s) \<or> showRating (handle e s)"
  by (cases e) (auto simp: handleSubmit_def handleFeedbackModalClose_def)

lemma run_left_idle:
  "showFeedbackModal s \<or> showRating s \<Longrightarrow>
   showFeedbackModal (run es s) \<or> showRating (run es s)"
proof (induction es arbitrary: s)
  case Nil
  then show ?case by simp
next
  case (Cons e es)
  from Cons.prems have "showFeedbackModal (handle e s) \<or> showRating (handle e s)"
    by (rule handle_left_idle)
  then show ?case using Cons.IH by simp
qed

lemma run_append: "run (es @ fs) s = run fs (run es s)"
  by (induction es arbitrary: s) simp_all

text \<open>While neither the modal nor the rating has been shown, nothing has changed.\<close>

lemma handle_idle:
  "handle e initial_feedback = initial_feedback \<or>
   showFeedbackModal (handle e initial_feedback)"
  by (cases e) (simp_all add: initial_feedback_def)

lemma run_idle_initial:
  "\<not> showFeedbackModal (run es s) \<Longrightarrow> \<not> showRating (run es s) \<Longrightarrow>
   s = initial_feedback \<Longrightarrow> run es s = initial_feedback"
proof (induction es arbitrary: s)
  case Nil
  then show ?case by simp
next
  case (Cons e es)
  from handle_idle [of e] show ?case
  proof
    assume "handle e initial_feedback = initial_feedback"
    with Cons show ?thesis by simp
  next
    assume "showFeedbackModal (handle e initial_feedback)"
    then have "showFeedbackModal (run es (handle e initial_feedback))
                 \<or> showRating (run es (handle e initial_feedback))"
      using run_left_idle by blast
    with Cons.prems show ?thesis by simp
  qed
qed

lemma reachable_idle:
  "reachable s \<Longrightarrow> phase_of s = Idle \<Longrightarrow> s = initial_feedback"
proof -
  assume r: "reachable s" and i: "phase_of s = Idle"
  from r obtain es where s: "s = run es initial_feedback"
    unfolding reachable_def by blast
  from i have "\<not> showFeedbackModal s" "\<not> showRating s"
    by (auto simp: phase_of_def split: if_splits)
  with s show ?thesis using run_idle_initial [of es initial_feedback] by simp
qed

lemma reachable_initial: "reachable initial_feedback"
  unfolding reachable_def by (rule exI [of _ "[]"]) simp

lemma reachable_handle: "reachable s \<Longrightarrow> reachable (handle e s)"
proof -
  assume "reachable s"
  then obtain es where "s = run es initial_feedback"
    unfolding reachable_def by blast
  then have "handle e s = run (es @ [e]) initial_feedback"
    by (simp add: run_append)
  then show ?thesis unfolding reachable_def by blast
qed

lemma reachable_not_both: "reachable s \<Longrightarrow> \<not> (showFeedbackModal s \<and> showRating s)"
proof -
  have step: "\<not> (showFeedbackModal (handle e t) \<and> showRating (handle e t))"
    if "\<not> (showFeedbackModal t \<and> showRating t)" for e t
    using that by (cases e) (auto simp: handleSubmit_def handleFeedbackModalClose_def)
  have all: "\<not> (showFeedbackModal (run es t) \<and> showRating (run es t))"
    if "\<not> (showFeedbackModal t \<and> showRating t)" for es t
    using that
  proof (induction es arbitrary: t)
    case Nil
    then show ?case by simp
  next
    case (Cons e es)
    from Cons.prems have "\<not> (showFeedbackModal (handle e t) \<and> showRating (handle e t))"
      by (rule step)
    then show ?case using Cons.IH by simp
  qed
  assume "reachable s"
  then obtain es where "s = run es initial_feedback"
    unfolding reachable_def by blast
  with all [of initial_feedback es] show ?thesis
    by (simp add: initial_feedback_def)
qed

text \<open>A message of ideographic spaces only is blank, so it cannot be sent.\<close>

lemma trim_ideographic_space: "trim [0x3000, 0x3000] = []"
  by (simp add: trim_def is_space_def)

lemma blank_message_not_sent:
  "trim (textFeedback s) = [] \<Longrightarrow> handle SendMessage s = s"
  by simp

text \<open>
  Claim C7. The interaction starts idle. From a reachable idle state the feedback button
  opens the modal on its video side. In the open modal \<^verbatim>\<open>Write instead\<close> and
  \<^verbatim>\<open>Record instead\<close> switch between the two sides. Sending the video while recording,
  sending a text that is not blank, and closing the modal each lead to the rating. Once
  the interaction has left the idle state, no sequence of actions brings it back.
\<close>

theorem feedback_state_machine:
  "phase_of initial_feedback = Idle \<and>
   (reachable s \<and> phase_of s = Idle \<longrightarrow> phase_of (handle LeaveMessage s) = ModalOpen FVideo) \<and>
   (phase_of s = ModalOpen FVideo \<longrightarrow> phase_of (handle WriteInstead s) = ModalOpen FText) \<and>
   (phase_of s = ModalOpen FText \<longrightarrow> phase_of (handle RecordInstead s) = ModalOpen FVideo) \<and>
   (phase_of s = ModalOpen FVideo \<and> isRecording s \<longrightarrow>
      phase_of (handle SendVideoMessage s) = RatingShown) \<and>
   (phase_of s = ModalOpen FText \<and> trim (textFeedback s) \<noteq> [] \<longrightarrow>
      phase_of (handle SendMessage s) = RatingShown) \<and>
   (phase_of s = ModalOpen m \<longrightarrow> phase_of (handle CloseModal s) = RatingShown) \<and>
   (phase_of s = RatingShown \<longrightarrow> phase_of (handle e s) = RatingShown) \<and>
   (phase_of s \<noteq> Idle \<longrightarrow> phase_of (run es s) \<noteq> Idle)"
proof -
  have 1: "phase_of initial_feedback = Idle"
    by (simp add: phase_of_def initial_feedback_def)
  have 2: "reachable s \<and> phase_of s = Idle \<longrightarrow>
             phase_of (handle LeaveMessage s) = ModalOpen FVideo"
  proof
    assume "reachable s \<and> phase_of s = Idle"
    then have "s = initial_feedback" using reachable_idle by blast
    then show "phase_of (handle LeaveMessage s) = ModalOpen FVideo"
      by (simp add: phase_of_def initial_feedback_def)
  qed
  have 3: "phase_of s = ModalOpen FVideo \<longrightarrow> phase_of (handle WriteInstead s) = ModalOpen FText"
    by (simp add: phase_of_def split: if_splits)
  have 4: "phase_of s = ModalOpen FText \<longrightarrow> phase_of (handle RecordInstead s) = ModalOpen FVideo"
    by (simp add: phase_of_def split: if_splits)
  have 5: "phase_of s = ModalOpen FVideo \<and> isRecording s \<longrightarrow>
             phase_of (handle SendVideoMessage s) = RatingShown"
    by (simp add: phase_of_def handleSubmit_def handleFeedbackModalClose_def split: if_splits)
  have 6: "phase_of s = ModalOpen FText \<and> trim (textFeedback s) \<noteq> [] \<longrightarrow>
             phase_of (handle SendMessage s) = RatingShown"
    by (simp add: phase_of_def handleSubmit_def handleFeedbackModalClose_def split: if_splits)
  have 7: "phase_of s = ModalOpen m \<longrightarrow> phase_of (handle CloseModal s) = RatingShown"
    by (simp add: phase_of_def handleFeedbackModalClose_def split: if_splits)
  have 8: "phase_of s = RatingShown \<longrightarrow> phase_of (handle e s) = RatingShown"
    by (cases e) (simp_all add: phase_of_def split: if_splits)
  have 9: "phase_of s \<noteq> Idle \<longrightarrow> phase_of (run es s) \<noteq> Idle"
  proof
    assume "phase_of s \<noteq> Idle"
    then have "showFeedbackModal s \<or> showRating s"
      by (auto simp: phase_of_def split: if_splits)
    then have "showFeedbackModal (run es s) \<or> showRating (run es s)"
      by (rule run_left_idle)
    then show "phase_of (run es s) \<noteq> Idle"
      by (auto simp: phase_of_def)
  qed
  from 1 2 3 4 5 6 7 8 9 show ?thesis by blast
qed

text \<open>
  One session: the button, a switch to the text side, the message \<^verbatim>\<open>" hello "\<close>, its
  sending; then the button and the modal's controls once more, to no effect.
\<close>

theorem feedback_state_machine_witness:
  "reachable initial_feedback \<and> phase_of initial_feedback = Idle \<and>
   phase_of (handle LeaveMessage initial_feedback) = ModalOpen FVideo \<and>
   phase_of (run [LeaveMessage, WriteInstead] initial_feedback) = ModalOpen FText \<and>
   phase_of (run [LeaveMessage, WriteInstead, RecordInstead] initial_feedback) = ModalOpen FVideo \<and>
   isRecording (run [LeaveMessage, ToggleRecording] initial_feedback) \<and>
   phase_of (run [LeaveMessage, ToggleRecording, SendVideoMessage] initial_feedback) = RatingShown \<and>
   trim (textFeedback (run [LeaveMessage, WriteInstead,
                            TypeText [0x20, 0x68, 0x65, 0x6C, 0x6C, 0x6F, 0x20]]
                       initial_feedback)) \<noteq> [] \<and>
   phase_of (run [LeaveMessage, WriteInstead, TypeText [0x20, 0x68, 0x65, 0x6C, 0x6C, 0x6F, 0x20],
                  SendMessage]
               initial_feedback)
     = RatingShown \<and>
   phase_of (run [LeaveMessage, CloseModal] initial_feedback) = RatingShown \<and>
   phase_of (handle LeaveMessage (run [LeaveMessage, CloseModal] initial_feedback)) = RatingShown \<and>
   phase_of (handle LeaveMessage initial_feedback) \<noteq> Idle \<and>
   phase_of (run [WriteInstead, CloseModal, LeaveMessage, RecordInstead]
               (handle LeaveMessage initial_feedback)) \<noteq> Idle"
proof -
  have r: "reachable initial_feedback" by (rule reachable_initial)
  have i: "phase_of initial_feedback = Idle"
    by (simp add: phase_of_def initial_feedback_def)
  have t: "trim [0x20, 0x68, 0x65, 0x6C, 0x6C, 0x6F, 0x20] = [0x68, 0x65, 0x6C, 0x6C, 0x6F]"
    by (simp add: trim_def is_space_def)
  from r i feedback_state_machine [of initial_feedback]
  have a: "phase_of (handle LeaveMessage initial_feedback) = ModalOpen FVideo" by blast
  then have b: "phase_of (handle LeaveMessage initial_feedback) \<noteq> Idle" by simp
  from b feedback_state_machine [of "handle LeaveMessage initial_feedback" _ _
                "[WriteInstead, CloseModal, LeaveMessage, RecordInstead]"]
  have c: "phase_of (run [WriteInstead, CloseModal, LeaveMessage, RecordInstead]
                      (handle LeaveMessage initial_feedback)) \<noteq> Idle" by blast
  show ?thesis
    using r i a b c t
    by (simp add: phase_of_def initial_feedback_def handleSubmit_def
          handleFeedbackModalClose_def)
qed

section \<open>Properties of the contact card\<close>

text \<open>
  Claim C9. The record has ten lines, named in this order \<^verbatim>\<open>BEGIN\<close>, \<^verbatim>\<open>VERSION\<close>,
  \<^verbatim>\<open>FN\<close>, \<^verbatim>\<open>ORG\<close>, \<^verbatim>\<open>TITLE\<close>, \<^verbatim>\<open>TEL\<close>, \<^verbatim>\<open>EMAIL\<close>, \<^verbatim>\<open>URL\<close>, \<^verbatim>\<open>ADR\<close>, \<^verbatim>\<open>END\<close>;
  the first two and the last are \<^verbatim>\<open>BEGIN:VCARD\<close>, \<^verbatim>\<open>VERSION:3.0\<close> and \<^verbatim>\<open>END:VCARD\<close>;
  the address has its seven parts, the first two of them empty and still separated by
  their semicolons.
\<close>

theorem vCard_field_order:
  "map property_name (split_at (CHR 0x0A) (blob_content handleSaveVCard)) =
     [''BEGIN'', ''VERSION'', ''FN'', ''ORG'', ''TITLE'', ''TEL'', ''EMAIL'', ''URL'', ''ADR'',
      ''END''] \<and>
   split_at (CHR 0x0A) (blob_content handleSaveVCard) ! 0 = ''BEGIN:VCARD'' \<and>
   split_at (CHR 0x0A) (blob_content handleSaveVCard) ! 1 = ''VERSION:3.0'' \<and>
   split_at (CHR 0x0A) (blob_content handleSaveVCard) ! 9 = ''END:VCARD'' \<and>
   split_at (CHR '';'')
      (property_value (split_at (CHR 0x0A) (blob_content handleSaveVCard) ! 8)) =
     [[], [], ''123 Innovation Drive'', ''San Francisco'', ''CA'', ''94105'', ''USA''] \<and>
   blob_type handleSaveVCard = ''text/vcard''"
proof -
  have l: "split_at (CHR 0x0A) (blob_content handleSaveVCard) =
     [''BEGIN:VCARD'', ''VERSION:3.0'', ''FN:Alex Johnson'', ''ORG:Delightloop'',
      ''TITLE:Senior Product Designer'', ''TEL:+1-555-0123'', ''EMAIL:alex@delightloop.com'',
      ''URL:https://linkedin.com/in/alexjohnson'',
      ''ADR:;;123 Innovation Drive;San Francisco;CA;94105;USA'', ''END:VCARD'']"
    by (simp add: handleSaveVCard_def vCardData_def)
  show ?thesis
    unfolding l by (simp add: property_name_def property_value_def handleSaveVCard_def)
qed

section \<open>Properties of the preview\<close>

lemma erase_modal_header:
  "erase_class (modal_header mobile) = erase_class (modal_header desktop)"
  by (simp add: modal_header_def)

lemma erase_video_interface:
  "erase_class (video_interface mobile r) = erase_class (video_interface desktop r)"
  by (simp add: video_interface_def)

lemma erase_text_interface:
  "erase_class (text_interface mobile t) = erase_class (text_interface desktop t)"
  by (simp add: text_interface_def)

lemma erase_FeedbackModal:
  "map erase_class (FeedbackModal s mobile) = map erase_class (FeedbackModal s desktop)"
  by (simp add: FeedbackModal_def erase_modal_header erase_video_interface
        erase_text_interface)

lemma erase_feedback_section:
  "erase_class (feedback_section mobile p r) = erase_class (feedback_section desktop p r)"
  by (simp add: feedback_section_def feedback_button_def rating_section_def)

lemma erase_action_button:
  "map erase_class (action_button mobile b) = map erase_class (action_button desktop b)"
  by (simp add: action_button_def)

lemma erase_text_column:
  "erase_class (text_column f d mobile) = erase_class (text_column f d desktop)"
  by (simp add: text_column_def split: option.splits)

lemma erase_resource_column:
  "erase_class (resource_column d mobile p r) = erase_class (resource_column d desktop p r)"
  by (simp add: resource_column_def erase_feedback_section erase_action_button)

lemma erase_render:
  "erase_class (renderLandingPageContent f d mobile p s)
     = erase_class (renderLandingPageContent f d desktop p s)"
  by (simp add: renderLandingPageContent_def erase_text_column erase_resource_column
        erase_FeedbackModal)

lemma attr_items_class: "is_class a \<Longrightarrow> attr_items a = []"
  by (cases a) simp_all

lemma attr_items_filter_class:
  "concat (map attr_items (filter (\<lambda>a. \<not> is_class a) attrs)) = concat (map attr_items attrs)"
  by (induction attrs) (simp_all add: attr_items_class)

lemma filter_class_click:
  "filter (\<lambda>a. \<not> is_click a) (filter (\<lambda>a. \<not> is_class a) attrs)
     = filter (\<lambda>a. \<not> is_class a) (filter (\<lambda>a. \<not> is_click a) attrs)"
  by (induction attrs) simp_all

lemma attr_items_erase:
  "concat (map attr_items (operable (filter (\<lambda>a. \<not> is_class a) attrs)))
     = concat (map attr_items (operable attrs))"
proof -
  have d: "Disabled True \<in> set (filter (\<lambda>a. \<not> is_class a) attrs) \<longleftrightarrow> Disabled True \<in> set attrs"
    by simp
  show ?thesis
  proof (cases "Disabled True \<in> set attrs")
    case True
    with d show ?thesis
      using attr_items_filter_class [of "filter (\<lambda>a. \<not> is_click a) attrs"]
      by (simp only: operable_def filter_class_click if_True)
  next
    case False
    with d show ?thesis
      using attr_items_filter_class [of attrs]
      by (simp only: operable_def if_False)
  qed
qed

lemma content_erase: "content (erase_class n) = content n"
proof (induction n)
  case (Element tag attrs children)
  have e: "map (\<lambda>x. content (erase_class x)) children = map content children"
    by (rule map_cong [OF refl]) (simp add: Element.IH)
  show ?case
    by (simp only: erase_class.simps content.simps attr_items_erase map_map comp_def e)
next
  case (TextNode t)
  show ?case by simp
qed

lemma content_modes:
  "content (renderLandingPageContent f d mobile p s)
     = content (renderLandingPageContent f d desktop p s)"
  using erase_render [of f d p s] content_erase by metis

lemma content_text_column:
  "content (text_column f d m) = text_items f d"
  by (simp add: text_column_def text_items_def renderRichTextWithDynamicFields_def
        operable_def split: option.splits)

lemma content_action_button:
  "content_list (action_button m b) = button_items b"
  by (simp add: action_button_def button_items_def content_list_def operable_def)

lemma content_resource_column:
  "content (resource_column d m p r) =
     resource_items d @ button_items (button1 d) @ button_items (button2 d) @
     content (feedback_section m p r)"
  by (simp add: resource_column_def resource_items_def content_action_button
        button_items_def content_list_def action_button_def operable_def)

lemma content_render:
  "content (renderLandingPageContent f d m p s) =
     Image (or_placeholder (logo d)) # text_items f d @ resource_items d @
     button_items (button1 d) @ button_items (button2 d) @
     content (feedback_section m p (showRating s)) @ content_list (FeedbackModal s m)"
  by (simp add: renderLandingPageContent_def content_text_column content_resource_column
        getBackgroundStyle_def content_list_def Let_def operable_def)

text \<open>
  The controls of the feedback interaction that the page offers in a state: these are
  the conditions under which \<open>handle\<close> lets an action change the state.
\<close>

lemma content_feedback_section:
  "content (feedback_section m p r) =
     (if \<not> r then
        [Click (Dispatch LeaveMessage),
         Txt [CHR 0xC3, CHR 0xB0, CHR 0xC5, CHR 0xB8, CHR 0xE2, CHR 0x80, CHR 0x99, CHR 0xC5,
              CHR 0x92],
         Txt ''Leave a message for host'']
      else [Txt ''Was this experience delightful?'', Txt ''Yes'', Txt ''No'',
            Txt ''Thank you for your feedback!''])"
  by (simp add: feedback_section_def feedback_button_def rating_section_def operable_def)

lemma content_video_interface:
  "content (video_interface m r) =
     [Txt ''Record Your Message'',
      Txt (if r then ''Recording... Tap to stop'' else ''Share a personal video message'')] @
     (if r then [Txt ''Recording...'', Txt ''00:15'']
      else [Txt ''Camera Preview'', Txt ''Max 2 minutes'']) @
     [Click (Dispatch WriteInstead), Txt ''Write instead'',
      Click (Dispatch ToggleRecording),
      Txt (if r then ''Stop Recording'' else ''Start Recording'')] @
     (if r then [Click (Dispatch SendVideoMessage), Txt ''Send Video Message''] else [])"
  by (simp add: video_interface_def operable_def)

lemma content_text_interface:
  "content (text_interface m t) =
     [Txt ''Write Your Message'', Txt ''Share your thoughts, feedback, or just say hello!'',
      Edit, Click (Dispatch RecordInstead), Txt ''Record instead''] @
     (if trim t \<noteq> [] then [Click (Dispatch SendMessage)] else []) @
     [Txt ''Send Message'']"
  by (simp add: text_interface_def operable_def)

lemma content_FeedbackModal:
  "content_list (FeedbackModal s m) =
     (if \<not> showFeedbackModal s then []
      else [Txt ''Leave a Message'', Click (Dispatch CloseModal)] @
           (if feedbackType s = FVideo then content (video_interface m (isRecording s))
            else content (text_interface m (textFeedback s))))"
  by (simp add: FeedbackModal_def content_list_def modal_header_def operable_def)

lemma no_dispatch_in_text_items:
  "Click (Dispatch e) \<notin> set (text_items f d) \<and> Edit \<notin> set (text_items f d)"
  by (cases "showDate d"; cases "selectedDate d"; simp add: text_items_def)

lemma no_dispatch_in_resource_items:
  "Click (Dispatch e) \<notin> set (resource_items d) \<and> Edit \<notin> set (resource_items d)"
  by (simp add: resource_items_def)

lemma no_dispatch_in_button_items:
  "Click (Dispatch e) \<notin> set (button_items b) \<and> Edit \<notin> set (button_items b)"
  by (simp add: button_items_def)

lemmas no_dispatch_in_document =
  no_dispatch_in_text_items no_dispatch_in_resource_items no_dispatch_in_button_items

lemma controls_offered:
  "Click (Dispatch LeaveMessage) \<in> set (content (renderLandingPageContent f d m p s))
     \<longleftrightarrow> \<not> showRating s"
  "Click (Dispatch CloseModal) \<in> set (content (renderLandingPageContent f d m p s))
     \<longleftrightarrow> showFeedbackModal s"
  "Click (Dispatch WriteInstead) \<in> set (content (renderLandingPageContent f d m p s))
     \<longleftrightarrow> showFeedbackModal s \<and> feedbackType s = FVideo"
  "Click (Dispatch RecordInstead) \<in> set (content (renderLandingPageContent f d m p s))
     \<longleftrightarrow> showFeedbackModal s \<and> feedbackType s = FText"
  "Click (Dispatch ToggleRecording) \<in> set (content (renderLandingPageContent f d m p s))
     \<longleftrightarrow> showFeedbackModal s \<and> feedbackType s = FVideo"
  "Click (Dispatch SendVideoMessage) \<in> set (content (renderLandingPageContent f d m p s))
     \<longleftrightarrow> showFeedbackModal s \<and> feedbackType s = FVideo \<and> isRecording s"
  "Click (Dispatch SendMessage) \<in> set (content (renderLandingPageContent f d m p s))
     \<longleftrightarrow> showFeedbackModal s \<and> feedbackType s = FText \<and> trim (textFeedback s) \<noteq> []"
  "Edit \<in> set (content (renderLandingPageContent f d m p s))
     \<longleftrightarrow> showFeedbackModal s \<and> feedbackType s = FText"
  by (cases "feedbackType s";
      auto simp: content_render content_feedback_section content_FeedbackModal
        content_video_interface content_text_interface no_dispatch_in_document
        split: if_splits)+

text \<open>An action on a control the page does not offer changes nothing.\<close>

lemma handle_needs_control:
  "control e \<notin> set (content (renderLandingPageContent f d m p s)) \<Longrightarrow> handle e s = s"
  by (cases e) (auto simp: controls_offered)

text \<open>
  Claim C6. The mobile and the desktop rendering of a document, in the same state, are
  the same tree once the class names are removed, so they differ in layout and type
  scale only; what they show and offer is the same list; and that list is, after the
  logo, the substituted title, the substituted description markup, the formatted date
  when it is shown and set, the resource, and for each shown button its target and its
  label, followed by the feedback controls, which do not depend on the mode either.
\<close>

theorem render_modes_same_content:
  "erase_class (renderLandingPageContent f d mobile p s)
     = erase_class (renderLandingPageContent f d desktop p s) \<and>
   content (renderLandingPageContent f d mobile p s)
     = content (renderLandingPageContent f d desktop p s) \<and>
   (\<exists>rest. \<forall>m.
      content (renderLandingPageContent f d m p s) =
        Image (or_placeholder (logo d)) # text_items f d @ resource_items d @
        button_items (button1 d) @ button_items (button2 d) @ rest)"
proof -
  let ?rest = "content (feedback_section mobile p (showRating s)) @
               content_list (FeedbackModal s mobile)"
  have fs: "content (feedback_section m p r) = content (feedback_section mobile p r)" for m r
  proof (cases m)
    case mobile
    then show ?thesis by simp
  next
    case desktop
    have "content (erase_class (feedback_section desktop p r))
            = content (erase_class (feedback_section mobile p r))"
      by (simp only: erase_feedback_section)
    with desktop show ?thesis by (simp only: content_erase)
  qed
  have fm: "content_list (FeedbackModal s m) = content_list (FeedbackModal s mobile)" for m
  proof (cases m)
    case mobile
    then show ?thesis by simp
  next
    case desktop
    have "map content (map erase_class (FeedbackModal s desktop))
            = map content (map erase_class (FeedbackModal s mobile))"
      by (simp only: erase_FeedbackModal)
    then have "map content (FeedbackModal s desktop) = map content (FeedbackModal s mobile)"
      by (simp only: map_map comp_def content_erase)
    with desktop show ?thesis by (simp only: content_list_def)
  qed
  have "\<forall>m. content (renderLandingPageContent f d m p s) =
          Image (or_placeholder (logo d)) # text_items f d @ resource_items d @
          button_items (button1 d) @ button_items (button2 d) @ ?rest"
  proof
    fix m
    show "content (renderLandingPageContent f d m p s) =
          Image (or_placeholder (logo d)) # text_items f d @ resource_items d @
          button_items (button1 d) @ button_items (button2 d) @ ?rest"
      by (simp only: content_render fs [of m] fm [of m])
  qed
  then have ex: "\<exists>rest. \<forall>m. content (renderLandingPageContent f d m p s) =
          Image (or_placeholder (logo d)) # text_items f d @ resource_items d @
          button_items (button1 d) @ button_items (button2 d) @ rest"
    by (rule exI)
  from erase_render [of f d p s] content_modes [of f d p s] ex show ?thesis by blast
qed

text \<open>The default document, freshly mounted, in the desktop preview.\<close>

theorem render_modes_same_content_witness:
  "content (renderLandingPageContent (\<lambda>t. ''January 1, 1970'') (defaultData 0) desktop True
              initial_feedback) =
     [Image ''/placeholder.svg?height=40&width=120&text=Logo'',
      Txt ''Hello Sarah, You've Got a Special Gift!'',
      Markup ''We're excited to share something special with you, Sarah. Your gift is on its way, and we wanted to create this personalized experience just for you.'',
      Txt ''January 1, 1970'',
      Image ''/placeholder.svg?height=400&width=600&text=Gift+Preview'',
      Click (WindowOpen ''#'' ''_blank''), Txt ''Track My Gift'',
      Click (WindowOpen ''#'' ''_blank''), Txt ''Learn More'',
      Click (Dispatch LeaveMessage),
      Txt [CHR 0xC3, CHR 0xB0, CHR 0xC5, CHR 0xB8, CHR 0xE2, CHR 0x80, CHR 0x99, CHR 0xC5,
           CHR 0x92],
      Txt ''Leave a message for host'']"
proof -
  have t: "renderDynamicText (title (defaultData 0)) = ''Hello Sarah, You've Got a Special Gift!''"
    by (simp add: defaultData_def matchAt_def replacer_def get_property_def sampleData_def)
  have e: "renderDynamicText (description (defaultData 0)) =
     ''We're excited to share something special with you, Sarah. Your gift is on its way, and we wanted to create this personalized experience just for you.''"
    by (simp add: defaultData_def matchAt_def replacer_def get_property_def sampleData_def)
  have m: "content (renderLandingPageContent (\<lambda>t. ''January 1, 1970'') (defaultData 0) mobile True
              initial_feedback) =
     [Image ''/placeholder.svg?height=40&width=120&text=Logo'',
      Txt ''Hello Sarah, You've Got a Special Gift!'',
      Markup ''We're excited to share something special with you, Sarah. Your gift is on its way, and we wanted to create this personalized experience just for you.'',
      Txt ''January 1, 1970'',
      Image ''/placeholder.svg?height=400&width=600&text=Gift+Preview'',
      Click (WindowOpen ''#'' ''_blank''), Txt ''Track My Gift'',
      Click (WindowOpen ''#'' ''_blank''), Txt ''Learn More'',
      Click (Dispatch LeaveMessage),
      Txt [CHR 0xC3, CHR 0xB0, CHR 0xC5, CHR 0xB8, CHR 0xE2, CHR 0x80, CHR 0x99, CHR 0xC5,
           CHR 0x92],
      Txt ''Leave a message for host'']"
    unfolding content_render text_items_def t e
    by (simp add: defaultData_def resource_items_def button_items_def or_placeholder_def
          feedback_section_def feedback_button_def FeedbackModal_def content_list_def
          initial_feedback_def operable_def)
  from render_modes_same_content
         [of "\<lambda>t. ''January 1, 1970''" "defaultData 0" True initial_feedback] m
  show ?thesis by simp
qed

end
